theory Spec2Isabelle
  imports Main
begin

section \<open>The acceptance-test runner (admin/acceptance.py)\<close>

text \<open>
  The script provisions nodes, runs the acceptance tests against them and destroys the
  nodes afterwards. Everything it does to the outside (spawning a process, performing a
  remote effect, creating or destroying a cloud node, printing) is recorded as an
  \<open>event\<close>, together with the outcome the outside gave. The outside is a \<open>world\<close>: for
  every kind of call a function from the events so far and the call's arguments to the
  call's outcome, so a call repeated later may end differently. Every function of the
  script takes the events so far and returns the events it adds.
\<close>

subsection \<open>Exceptions, nodes, effects\<close>

text \<open>
  \<open>ProcessTerminated exitCode signal\<close> is twisted's failure of a spawned process; any
  other exception of a collaborator is \<open>OtherError\<close>. Every one of them is an
  \<open>Exception\<close> of Python, which \<open>except Exception\<close> catches.
\<close>

datatype exn =
    UsageError string
  | NotImplementedError string
  | IndexError
  | TypeError
  | ProcessTerminated "int option" "int option"
  | OtherError string

record package_source =
  version :: "string option"
  os_version :: "string option"
  branch :: "string option"
  build_server :: string

text \<open>
  \<open>VagrantNode\<close> has the attributes \<open>address\<close> and \<open>distribution\<close>. A cloud node
  (\<open>INode\<close> of flocker.provision._libcloud) is used through \<open>address\<close> and \<open>name\<close>.
\<close>

datatype node =
    VagrantNode (address: string) (node_distribution: string)
  | LibcloudNode (address: string) (node_distribution: string) (name: string)

datatype commands = task_pull_docker_images | task_client_installation_test

datatype effect =
    run_remotely string string commands
  | install_cli package_source node
  | configure_cluster node "node list"
  | node_provision node package_source "string list"
  | Sequence "effect list"
  | Parallel "effect list"

text \<open>The volume backend is a named constant; \<open>VolumeBackend.zfs.name\<close> is \<open>zfs\<close>.\<close>

datatype VolumeBackend = NamedConstant (backend_name: string)

definition VolumeBackend_zfs :: VolumeBackend where
  "VolumeBackend_zfs = NamedConstant ''zfs''"

subsection \<open>Events and the world\<close>

datatype message =
    Creating_node nat string
  | Error_creating_node nat string
  | It_may_have_leaked
  | Destroying string
  | Failed_to_destroy string exn
  | Keep_specified

text \<open>
  \<open>Run command path env outcome\<close>: \<open>run(reactor, command, path=..., env=...)\<close>, a keyword
  that is not passed being \<open>None\<close>; the outcome is \<open>None\<close> when the process ends with
  success. \<open>Stop_nodes\<close> marks an invocation of the runner's \<open>stop_nodes\<close>.
\<close>

datatype event =
    Run "string list" "string option" "(string \<rightharpoonup> string) option" "exn option"
  | Perform effect "exn option"
  | Create_node string string "string \<rightharpoonup> string" "exn + node"
  | Destroy node "exn option"
  | Print message
  | Stop_nodes

record world =
  os_environ :: "string \<rightharpoonup> string"
  run_outcome :: "event list \<Rightarrow> string list \<Rightarrow> string option \<Rightarrow> (string \<rightharpoonup> string) option \<Rightarrow> exn option"
  perform_outcome :: "event list \<Rightarrow> effect \<Rightarrow> exn option"
  create_node_outcome :: "event list \<Rightarrow> string \<Rightarrow> string \<Rightarrow> (string \<rightharpoonup> string) \<Rightarrow> exn + node"
  destroy_outcome :: "event list \<Rightarrow> node \<Rightarrow> exn option"
  vagrant_version :: "string \<Rightarrow> string"
  default_username :: "node \<Rightarrow> string"

text \<open>\<open>env = os.environ.copy(); env.update(kwargs)\<close>\<close>

definition extend_environ :: "world \<Rightarrow> (string \<times> string) list \<Rightarrow> (string \<rightharpoonup> string)" where
  "extend_environ w kwargs = fold (\<lambda>(k, v) env. env(k \<mapsto> v)) kwargs (os_environ w)"

definition run ::
  "world \<Rightarrow> event list \<Rightarrow> string list \<Rightarrow> string option \<Rightarrow> (string \<rightharpoonup> string) option
    \<Rightarrow> exn option \<times> event list" where
  "run w h command path env =
     (let d = run_outcome w h command path env in (d, [Run command path env d]))"

definition perform :: "world \<Rightarrow> event list \<Rightarrow> effect \<Rightarrow> exn option \<times> event list" where
  "perform w h eff = (let d = perform_outcome w h eff in (d, [Perform eff d]))"

definition remove_known_host :: "world \<Rightarrow> event list \<Rightarrow> string \<Rightarrow> exn option \<times> event list" where
  "remove_known_host w h hostname = run w h [''ssh-keygen'', ''-R'', hostname] None None"

subsection \<open>Running the tests\<close>

text \<open>
  \<open>check_result\<close> traps \<open>ProcessTerminated\<close> (any other failure goes on as it is) and
  returns the exit code when there is one, the failure itself otherwise.
\<close>

definition check_result :: "exn \<Rightarrow> exn + int" where
  "check_result f =
     (case f of
        ProcessTerminated exitCode sig \<Rightarrow>
          (case exitCode of Some c \<Rightarrow> Inr c | None \<Rightarrow> Inl f)
      | _ \<Rightarrow> Inl f)"

text \<open>\<open>.addCallbacks(callback=lambda _: 0, errback=check_result)\<close>\<close>

definition addCallbacks :: "exn option \<Rightarrow> exn + int" where
  "addCallbacks d = (case d of None \<Rightarrow> Inr 0 | Some f \<Rightarrow> check_result f)"

text \<open>
  \<open>VagrantNode.get_default_username\<close> is declared without \<open>self\<close>, so calling it on a
  node raises \<open>TypeError\<close>; a cloud node answers with its user name.
\<close>

definition get_default_username :: "world \<Rightarrow> node \<Rightarrow> exn + string" where
  "get_default_username w n =
     (case n of
        VagrantNode a d \<Rightarrow> Inl TypeError
      | LibcloudNode a d nm \<Rightarrow> Inr (default_username w n))"

text \<open>
  Modelled from the spec: \<open>sequence\<close> of flocker.provision._effect, which
  \<open>run_client_tests\<close> applies to its two legs, is not among the sources. The spec:
  the exit code is 0 only if both the local and the remote leg exit 0, otherwise the
  combined non-zero code is surfaced; a remote step that exits with code 3 yields the
  overall exit code 3; an error of a leg propagates. So the legs are read in order, the
  first error is the result, and of the exit codes a later non-zero one stands.
\<close>

fun sequence_legs :: "(exn + int) list \<Rightarrow> exn + int" where
  "sequence_legs [] = Inr 0"
| "sequence_legs (Inl e # rest) = Inl e"
| "sequence_legs (Inr c # rest) =
     (case sequence_legs rest of
        Inl e \<Rightarrow> Inl e
      | Inr c' \<Rightarrow> Inr (if c' \<noteq> 0 then c' else c))"

definition run_client_tests :: "world \<Rightarrow> event list \<Rightarrow> node \<Rightarrow> (exn + int) \<times> event list" where
  "run_client_tests w h n =
     (case run w h [''trial'', ''flocker.cli''] None None of
        (d1, es1) \<Rightarrow>
          (case get_default_username w n of
             Inl e \<Rightarrow> (Inl e, es1)
           | Inr username \<Rightarrow>
               (case perform w (h @ es1)
                       (run_remotely username (address n) task_client_installation_test) of
                  (d2, es2) \<Rightarrow>
                    (sequence_legs [addCallbacks d1, addCallbacks d2], es1 @ es2))))"

text \<open>Python's \<open>sep.join(xs)\<close>.\<close>

fun join :: "string \<Rightarrow> string list \<Rightarrow> string" where
  "join sep [] = []"
| "join sep [x] = x"
| "join sep (x # y # ys) = x @ sep @ join sep (y # ys)"

definition run_cluster_tests ::
  "world \<Rightarrow> event list \<Rightarrow> node list \<Rightarrow> node \<Rightarrow> node list \<Rightarrow> VolumeBackend \<Rightarrow> string list
    \<Rightarrow> (exn + int) \<times> event list" where
  "run_cluster_tests w h nodes control_node agent_nodes volume_backend trial_args =
     (let trial_args' = (if trial_args = [] then [''flocker.acceptance''] else trial_args) in
      case run w h (''trial'' # trial_args') None
             (Some (extend_environ w
                [(''FLOCKER_ACCEPTANCE_NODES'', join '':'' (map address nodes)),
                 (''FLOCKER_ACCEPTANCE_CONTROL_NODE'', address control_node),
                 (''FLOCKER_ACCEPTANCE_AGENT_NODES'', join '':'' (map address agent_nodes)),
                 (''FLOCKER_ACCEPTANCE_VOLUME_BACKEND'', backend_name volume_backend)])) of
        (d, es) \<Rightarrow> (addCallbacks d, es))"

subsection \<open>The runners\<close>

text \<open>\<open>RUNNER_ATTRIBUTES\<close>, the attributes both runners are constructed with.\<close>

record runner_attributes =
  distribution :: string
  top_level :: string
  config :: "string \<rightharpoonup> (string \<rightharpoonup> string)"
  package_source :: package_source
  variants :: "string list"

record vagrant_runner = runner_attributes +
  vagrant_path :: string

record libcloud_runner = runner_attributes +
  nodes :: "node list"
  metadata :: "string \<rightharpoonup> string"
  creator :: string

definition NODE_ADDRESSES :: "string list" where
  "NODE_ADDRESSES = [''172.16.255.240'', ''172.16.255.241'']"

text \<open>The loop \<open>for node in self.NODE_ADDRESSES\<close> of \<open>VagrantRunner.start_nodes\<close>.\<close>

fun vagrant_prepare :: "world \<Rightarrow> event list \<Rightarrow> string list \<Rightarrow> exn option \<times> event list" where
  "vagrant_prepare w h [] = (None, [])"
| "vagrant_prepare w h (a # rest) =
     (case remove_known_host w h a of
        (Some e, es1) \<Rightarrow> (Some e, es1)
      | (None, es1) \<Rightarrow>
          (case perform w (h @ es1) (run_remotely ''root'' a task_pull_docker_images) of
             (Some e, es2) \<Rightarrow> (Some e, es1 @ es2)
           | (None, es2) \<Rightarrow>
               (case vagrant_prepare w (h @ es1 @ es2) rest of
                  (d, es3) \<Rightarrow> (d, es1 @ es2 @ es3))))"

text \<open>Python's truth value of \<open>package_source.version\<close>: \<open>None\<close> and the empty string are false.\<close>

definition truthy :: "string option \<Rightarrow> bool" where
  "truthy v = (case v of None \<Rightarrow> False | Some s \<Rightarrow> s \<noteq> [])"

definition VagrantRunner_start_nodes ::
  "world \<Rightarrow> vagrant_runner \<Rightarrow> event list \<Rightarrow> int \<Rightarrow> (exn + node list) \<times> event list" where
  "VagrantRunner_start_nodes w r h node_count =
     (if node_count \<noteq> 2
      then (Inl (NotImplementedError ''Vagrant start_nodes must start 2 nodes''), [])
      else
        case run w h [''vagrant'', ''destroy'', ''-f''] (Some (vagrant_path r)) None of
          (Some e, es1) \<Rightarrow> (Inl e, es1)
        | (None, es1) \<Rightarrow>
            (let env =
               (if truthy (version (package_source r))
                then extend_environ w
                       [(''FLOCKER_BOX_VERSION'',
                         vagrant_version w (the (version (package_source r))))]
                else os_environ w)
             in case run w (h @ es1) [''vagrant'', ''up''] (Some (vagrant_path r)) (Some env) of
                  (Some e, es2) \<Rightarrow> (Inl e, es1 @ es2)
                | (None, es2) \<Rightarrow>
                    (case vagrant_prepare w (h @ es1 @ es2) NODE_ADDRESSES of
                       (Some e, es3) \<Rightarrow> (Inl e, es1 @ es2 @ es3)
                     | (None, es3) \<Rightarrow>
                         (Inr (map (\<lambda>a. VagrantNode a (distribution r)) NODE_ADDRESSES),
                          es1 @ es2 @ es3))))"

definition VagrantRunner_stop_nodes ::
  "world \<Rightarrow> vagrant_runner \<Rightarrow> event list \<Rightarrow> exn option \<times> event list" where
  "VagrantRunner_stop_nodes w r h =
     run w h [''vagrant'', ''destroy'', ''-f''] (Some (vagrant_path r)) None"

text \<open>
  \<open>str.isalnum\<close> on a byte string: at least one character, and every character a digit
  or a letter of ASCII.
\<close>

definition alnum_char :: "char \<Rightarrow> bool" where
  "alnum_char c =
     (let n = (of_char c :: nat)
      in (48 \<le> n \<and> n \<le> 57) \<or> (65 \<le> n \<and> n \<le> 90) \<or> (97 \<le> n \<and> n \<le> 122))"

definition isalnum :: "string \<Rightarrow> bool" where
  "isalnum s = (s \<noteq> [] \<and> list_all alnum_char s)"

text \<open>
  \<open>self.config.get('metadata', {})\<close>, then \<open>LibcloudRunner.__init__\<close>; the message of
  the second error also quotes the creator, which is left out here.
\<close>

definition config_metadata :: "runner_attributes \<Rightarrow> (string \<rightharpoonup> string)" where
  "config_metadata a = (case config a ''metadata'' of None \<Rightarrow> Map.empty | Some m \<Rightarrow> m)"

definition LibcloudRunner_init :: "runner_attributes \<Rightarrow> exn + libcloud_runner" where
  "LibcloudRunner_init a =
     (let md = config_metadata a
      in case md ''creator'' of
           None \<Rightarrow> Inl (UsageError ''Must specify creator metadata.'')
         | Some c \<Rightarrow>
             if \<not> isalnum c
             then Inl (UsageError ''Creator must be alphanumeric.'')
             else Inr \<lparr>distribution = distribution a, top_level = top_level a,
                       config = config a, package_source = package_source a,
                       variants = variants a, nodes = [], metadata = md, creator = c\<rparr>)"

text \<open>\<open>"%d" % index\<close> for an index of \<open>range\<close>.\<close>

fun str_nat :: "nat \<Rightarrow> string" where
  "str_nat n =
     (if n < 10 then [''0123456789'' ! n]
      else str_nat (n div 10) @ [''0123456789'' ! (n mod 10)])"

declare str_nat.simps [simp del]

definition node_name :: "libcloud_runner \<Rightarrow> nat \<Rightarrow> string" where
  "node_name r index = ''acceptance-test-'' @ creator r @ ''-'' @ str_nat index"

definition node_metadata :: "libcloud_runner \<Rightarrow> (string \<rightharpoonup> string)" where
  "node_metadata r =
     [''purpose'' \<mapsto> ''acceptance-testing'', ''distribution'' \<mapsto> distribution r] ++ metadata r"

text \<open>The loop \<open>for index in range(node_count)\<close> of \<open>LibcloudRunner.start_nodes\<close>.\<close>

fun start_nodes_loop ::
  "world \<Rightarrow> libcloud_runner \<Rightarrow> event list \<Rightarrow> nat list
    \<Rightarrow> exn option \<times> libcloud_runner \<times> event list" where
  "start_nodes_loop w r h [] = (None, r, [])"
| "start_nodes_loop w r h (index # rest) =
     (let es0 = [Print (Creating_node index (node_name r index))];
          c = create_node_outcome w (h @ es0) (node_name r index) (distribution r)
                (node_metadata r);
          es1 = es0 @ [Create_node (node_name r index) (distribution r) (node_metadata r) c]
      in case c of
           Inl e \<Rightarrow>
             (Some e, r,
              es1 @ [Print (Error_creating_node index (node_name r index)),
                     Print It_may_have_leaked])
         | Inr n \<Rightarrow>
             (case remove_known_host w (h @ es1) (address n) of
                (Some e, es2) \<Rightarrow> (Some e, r, es1 @ es2)
              | (None, es2) \<Rightarrow>
                  (case start_nodes_loop w (r\<lparr>nodes := nodes r @ [n]\<rparr>) (h @ es1 @ es2) rest of
                     (d, r', es3) \<Rightarrow> (d, r', es1 @ es2 @ es3))))"

definition LibcloudRunner_start_nodes ::
  "world \<Rightarrow> libcloud_runner \<Rightarrow> event list \<Rightarrow> int
    \<Rightarrow> (exn + node list) \<times> libcloud_runner \<times> event list" where
  "LibcloudRunner_start_nodes w r h node_count =
     (case start_nodes_loop w r h [0 ..< nat node_count] of
        (Some e, r', es) \<Rightarrow> (Inl e, r', es)
      | (None, r', es) \<Rightarrow> (Inr (nodes r'), r', es))"

text \<open>
  \<open>LibcloudRunner.stop_nodes\<close>: \<open>node.destroy()\<close> under \<open>try\<close>, an exception printed.
  The loop for the nodes, then the method, which returns \<open>None\<close>.
\<close>

fun stop_nodes_loop :: "world \<Rightarrow> event list \<Rightarrow> node list \<Rightarrow> event list" where
  "stop_nodes_loop w h [] = []"
| "stop_nodes_loop w h (n # rest) =
     (let es0 = [Print (Destroying (name n))];
          d = destroy_outcome w (h @ es0) n;
          es1 = es0 @ [Destroy n d] @
                (case d of None \<Rightarrow> [] | Some e \<Rightarrow> [Print (Failed_to_destroy (name n) e)])
      in es1 @ stop_nodes_loop w (h @ es1) rest)"

definition LibcloudRunner_stop_nodes ::
  "world \<Rightarrow> libcloud_runner \<Rightarrow> event list \<Rightarrow> (exn + unit) \<times> event list" where
  "LibcloudRunner_stop_nodes w r h = (Inr (), stop_nodes_loop w h (nodes r))"

subsection \<open>The workflows and \<open>main\<close>\<close>

text \<open>The runner of a run is one of the two; a method call dispatches on it.\<close>

datatype runner = VagrantRunner vagrant_runner | LibcloudRunner libcloud_runner

definition runner_package_source :: "runner \<Rightarrow> package_source" where
  "runner_package_source r =
     (case r of VagrantRunner v \<Rightarrow> package_source v | LibcloudRunner l \<Rightarrow> package_source l)"

definition start_nodes ::
  "world \<Rightarrow> runner \<Rightarrow> event list \<Rightarrow> int \<Rightarrow> (exn + node list) \<times> runner \<times> event list" where
  "start_nodes w r h node_count =
     (case r of
        VagrantRunner v \<Rightarrow>
          (case VagrantRunner_start_nodes w v h node_count of (res, es) \<Rightarrow> (res, r, es))
      | LibcloudRunner l \<Rightarrow>
          (case LibcloudRunner_start_nodes w l h node_count of
             (res, l', es) \<Rightarrow> (res, LibcloudRunner l', es)))"

text \<open>
  \<open>provision\<close>: the empty sequence for vagrant, every node's \<open>provision\<close> in parallel
  for a cloud.
\<close>

definition provision :: "runner \<Rightarrow> node list \<Rightarrow> effect" where
  "provision r ns =
     (case r of
        VagrantRunner v \<Rightarrow> Sequence []
      | LibcloudRunner l \<Rightarrow>
          Parallel (map (\<lambda>n. node_provision n (package_source l) (variants l)) ns))"

text \<open>
  \<open>runner.stop_nodes(reactor)\<close>. The vagrant runner returns the deferred of its
  \<open>destroy\<close> command, which \<open>main\<close> does not wait for: the call itself returns.
\<close>

definition stop_nodes :: "world \<Rightarrow> runner \<Rightarrow> event list \<Rightarrow> (exn + unit) \<times> event list" where
  "stop_nodes w r h =
     (case r of
        VagrantRunner v \<Rightarrow>
          (case VagrantRunner_stop_nodes w v (h @ [Stop_nodes]) of
             (d, es) \<Rightarrow> (Inr (), Stop_nodes # es))
      | LibcloudRunner l \<Rightarrow>
          (case LibcloudRunner_stop_nodes w l (h @ [Stop_nodes]) of
             (res, es) \<Rightarrow> (res, Stop_nodes # es)))"

text \<open>\<open>nodes[0]\<close>\<close>

definition first_node :: "node list \<Rightarrow> exn + node" where
  "first_node ns = (case ns of [] \<Rightarrow> Inl IndexError | n # rest \<Rightarrow> Inr n)"

definition do_client_acceptance_tests ::
  "world \<Rightarrow> runner \<Rightarrow> string list \<Rightarrow> event list \<Rightarrow> (exn + int) \<times> runner \<times> event list" where
  "do_client_acceptance_tests w r trial_args h =
     (case start_nodes w r h 1 of
        (Inl e, r1, es1) \<Rightarrow> (Inl e, r1, es1)
      | (Inr ns, r1, es1) \<Rightarrow>
          (case first_node ns of
             Inl e \<Rightarrow> (Inl e, r1, es1)
           | Inr n0 \<Rightarrow>
               (case perform w (h @ es1) (install_cli (runner_package_source r1) n0) of
                  (Some e, es2) \<Rightarrow> (Inl e, r1, es1 @ es2)
                | (None, es2) \<Rightarrow>
                    (case run_client_tests w (h @ es1 @ es2) n0 of
                       (res, es3) \<Rightarrow> (res, r1, es1 @ es2 @ es3)))))"

definition do_cluster_acceptance_tests ::
  "world \<Rightarrow> runner \<Rightarrow> string list \<Rightarrow> event list \<Rightarrow> (exn + int) \<times> runner \<times> event list" where
  "do_cluster_acceptance_tests w r trial_args h =
     (case start_nodes w r h 2 of
        (Inl e, r1, es1) \<Rightarrow> (Inl e, r1, es1)
      | (Inr ns, r1, es1) \<Rightarrow>
          (case perform w (h @ es1) (provision r1 ns) of
             (Some e, es2) \<Rightarrow> (Inl e, r1, es1 @ es2)
           | (None, es2) \<Rightarrow>
               (case first_node ns of
                  Inl e \<Rightarrow> (Inl e, r1, es1 @ es2)
                | Inr n0 \<Rightarrow>
                    (case perform w (h @ es1 @ es2) (configure_cluster n0 ns) of
                       (Some e, es3) \<Rightarrow> (Inl e, r1, es1 @ es2 @ es3)
                     | (None, es3) \<Rightarrow>
                         (case run_cluster_tests w (h @ es1 @ es2 @ es3) ns n0 ns
                                 VolumeBackend_zfs trial_args of
                            (res, es4) \<Rightarrow> (res, r1, es1 @ es2 @ es3 @ es4))))))"

datatype TestTypes = CLIENT | CLUSTER

definition test_type_runner ::
  "TestTypes \<Rightarrow> world \<Rightarrow> runner \<Rightarrow> string list \<Rightarrow> event list
    \<Rightarrow> (exn + int) \<times> runner \<times> event list" where
  "test_type_runner t =
     (case t of CLIENT \<Rightarrow> do_client_acceptance_tests | CLUSTER \<Rightarrow> do_cluster_acceptance_tests)"

text \<open>The parsed options \<open>main\<close> reads: the runner, \<open>type\<close>, \<open>trial-args\<close>, \<open>keep\<close>.\<close>

record options =
  opt_runner :: runner
  opt_type :: TestTypes
  opt_trial_args :: "string list"
  opt_keep :: bool

text \<open>How \<open>main\<close> ends: \<open>raise SystemExit(result)\<close>, or the exception that goes on.\<close>

datatype ending = SystemExit int | Raised exn

text \<open>
  \<open>main\<close> after the options are parsed: \<open>try\<close> the workflow; \<open>except: result = 1; raise\<close>;
  \<open>finally\<close> stop the nodes unless the result is not 0 and \<open>keep\<close> is set. An exception
  of the \<open>finally\<close> block would replace the ending.
\<close>

definition main :: "world \<Rightarrow> options \<Rightarrow> ending \<times> event list" where
  "main w opts =
     (case test_type_runner (opt_type opts) w (opt_runner opts) (opt_trial_args opts) [] of
        (outcome, r1, es1) \<Rightarrow>
          (let result = (case outcome of Inl e \<Rightarrow> 1 | Inr c \<Rightarrow> c);
               ending = (case outcome of Inl e \<Rightarrow> Raised e | Inr c \<Rightarrow> SystemExit c)
           in if \<not> (result \<noteq> 0 \<and> opt_keep opts)
              then (case stop_nodes w r1 es1 of
                      (Inl e, es2) \<Rightarrow> (Raised e, es1 @ es2)
                    | (Inr u, es2) \<Rightarrow> (ending, es1 @ es2))
              else if opt_keep opts
              then (ending, es1 @ [Print Keep_specified])
              else (ending, es1)))"

subsection \<open>Reading a list of events\<close>

text \<open>The nodes that \<open>create_node\<close> returned, in the order of their creation.\<close>

fun created :: "event \<Rightarrow> node list" where
  "created (Create_node nm d md (Inr n)) = [n]"
| "created e = []"

definition created_nodes :: "event list \<Rightarrow> node list" where
  "created_nodes es = concat (map created es)"

text \<open>The names \<open>create_node\<close> was called with.\<close>

fun creation :: "event \<Rightarrow> string list" where
  "creation (Create_node nm d md c) = [nm]"
| "creation e = []"

definition created_names :: "event list \<Rightarrow> string list" where
  "created_names es = concat (map creation es)"

text \<open>An event is failed when the outside answered the call with an exception.\<close>

fun failed_event :: "event \<Rightarrow> bool" where
  "failed_event (Run c p env (Some e)) = True"
| "failed_event (Perform eff (Some e)) = True"
| "failed_event (Create_node nm d md (Inl e)) = True"
| "failed_event (Destroy n (Some e)) = True"
| "failed_event e = False"

text \<open>The nodes \<open>destroy\<close> was called on, the calls that raised, and the failures printed.\<close>

fun destroyed :: "event \<Rightarrow> node list" where
  "destroyed (Destroy n d) = [n]"
| "destroyed e = []"

definition destroy_attempts :: "event list \<Rightarrow> node list" where
  "destroy_attempts es = concat (map destroyed es)"

fun destroy_failure :: "event \<Rightarrow> (string \<times> exn) list" where
  "destroy_failure (Destroy n (Some e)) = [(name n, e)]"
| "destroy_failure e = []"

definition destroy_failures :: "event list \<Rightarrow> (string \<times> exn) list" where
  "destroy_failures es = concat (map destroy_failure es)"

fun logged_failure :: "event \<Rightarrow> (string \<times> exn) list" where
  "logged_failure (Print (Failed_to_destroy nm e)) = [(nm, e)]"
| "logged_failure e = []"

definition logged_failures :: "event list \<Rightarrow> (string \<times> exn) list" where
  "logged_failures es = concat (map logged_failure es)"

text \<open>The commands spawned.\<close>

fun command :: "event \<Rightarrow> string list list" where
  "command (Run c p env d) = [c]"
| "command e = []"

definition commands_run :: "event list \<Rightarrow> string list list" where
  "commands_run es = concat (map command es)"

text \<open>
  A process that ran and exited with status \<open>N\<close>: it ended with success (status 0), or
  with \<open>ProcessTerminated\<close> carrying the exit code \<open>N\<close>.
\<close>

definition exited :: "exn option \<Rightarrow> int \<Rightarrow> bool" where
  "exited d N = ((d = None \<and> N = 0) \<or> (\<exists>sig. d = Some (ProcessTerminated (Some N) sig)))"

subsection \<open>Sample runs\<close>

text \<open>A world in which every call succeeds, and runners for it.\<close>

definition calm_world :: world where
  "calm_world =
     \<lparr>os_environ = [''HOME'' \<mapsto> ''/root''],
      run_outcome = (\<lambda>h c p env. None),
      perform_outcome = (\<lambda>h eff. None),
      create_node_outcome = (\<lambda>h nm d md. Inr (LibcloudNode (''10.0.0.'' @ [last nm]) d nm)),
      destroy_outcome = (\<lambda>h n. None),
      vagrant_version = (\<lambda>v. v),
      default_username = (\<lambda>n. ''root'')\<rparr>"

definition sample_attributes :: runner_attributes where
  "sample_attributes =
     \<lparr>distribution = ''ubuntu-14.04'', top_level = ''/flocker'',
      config = [''metadata'' \<mapsto> [''creator'' \<mapsto> ''alice'']],
      package_source = \<lparr>version = None, os_version = None, branch = None,
                        build_server = ''http://build.clusterhq.com/''\<rparr>,
      variants = []\<rparr>"

definition sample_vagrant :: vagrant_runner where
  "sample_vagrant =
     \<lparr>distribution = ''ubuntu-14.04'', top_level = ''/flocker'',
      config = Map.empty,
      package_source = \<lparr>version = None, os_version = None, branch = None,
                        build_server = ''http://build.clusterhq.com/''\<rparr>,
      variants = [],
      vagrant_path = ''/flocker/admin/vagrant-acceptance-targets/ubuntu-14.04''\<rparr>"

definition sample_cloud :: libcloud_runner where
  "sample_cloud =
     \<lparr>distribution = ''ubuntu-14.04'', top_level = ''/flocker'',
      config = [''metadata'' \<mapsto> [''creator'' \<mapsto> ''alice'']],
      package_source = \<lparr>version = None, os_version = None, branch = None,
                        build_server = ''http://build.clusterhq.com/''\<rparr>,
      variants = [], nodes = [], metadata = [''creator'' \<mapsto> ''alice''],
      creator = ''alice''\<rparr>"

text \<open>A cloud node, and a world whose remote client test exits with code 3.\<close>

definition sample_node :: node where
  "sample_node = LibcloudNode ''10.0.0.0'' ''ubuntu-14.04'' ''acceptance-test-alice-0''"

definition remote_exit_3_world :: world where
  "remote_exit_3_world =
     calm_world\<lparr>perform_outcome :=
       (\<lambda>h eff. case eff of
          run_remotely u a cs \<Rightarrow> Some (ProcessTerminated (Some 3) None)
        | _ \<Rightarrow> None)\<rparr>"

text \<open>
  Worlds in which one call fails: the creation of the second node, the cleanup of the
  known hosts for the second node, the destruction of the first node.
\<close>

definition quota_world :: world where
  "quota_world =
     calm_world\<lparr>create_node_outcome :=
       (\<lambda>h nm d md.
          if nm = ''acceptance-test-alice-1'' then Inl (OtherError ''quota'')
          else Inr (LibcloudNode (''10.0.0.'' @ [last nm]) d nm))\<rparr>"

definition stale_host_world :: world where
  "stale_host_world =
     calm_world\<lparr>run_outcome :=
       (\<lambda>h c p env.
          if c = [''ssh-keygen'', ''-R'', ''10.0.0.1'']
          then Some (ProcessTerminated (Some 255) None)
          else None)\<rparr>"

definition stubborn_world :: world where
  "stubborn_world =
     calm_world\<lparr>destroy_outcome :=
       (\<lambda>h n. if address n = ''10.0.0.0'' then Some (OtherError ''busy'') else None)\<rparr>"

definition second_node :: node where
  "second_node = LibcloudNode ''10.0.0.1'' ''ubuntu-14.04'' ''acceptance-test-alice-1''"

section \<open>Properties\<close>

subsection \<open>The workflows never stop the nodes themselves\<close>

text \<open>
  No function of a workflow invokes \<open>stop_nodes\<close>: the events it adds hold no
  \<open>Stop_nodes\<close>.
\<close>

lemma run_quiet: "run w h c p e = (d, es) \<Longrightarrow> Stop_nodes \<notin> set es"
  by (auto simp: run_def Let_def)

lemma perform_quiet: "perform w h eff = (d, es) \<Longrightarrow> Stop_nodes \<notin> set es"
  by (auto simp: perform_def Let_def)

lemma remove_known_host_quiet: "remove_known_host w h a = (d, es) \<Longrightarrow> Stop_nodes \<notin> set es"
  by (auto simp: remove_known_host_def dest: run_quiet)

lemma vagrant_prepare_quiet: "vagrant_prepare w h as = (d, es) \<Longrightarrow> Stop_nodes \<notin> set es"
proof (induction as arbitrary: h d es)
  case Nil
  then show ?case by simp
next
  case (Cons a as)
  then show ?case
    by (auto split: prod.splits option.splits dest: remove_known_host_quiet perform_quiet)
qed

lemma VagrantRunner_start_nodes_quiet:
  "VagrantRunner_start_nodes w r h n = (res, es) \<Longrightarrow> Stop_nodes \<notin> set es"
  by (auto simp: VagrantRunner_start_nodes_def Let_def
      split: if_splits prod.splits option.splits
      dest: run_quiet vagrant_prepare_quiet)

lemma start_nodes_loop_quiet:
  "start_nodes_loop w r h idxs = (d, r', es) \<Longrightarrow> Stop_nodes \<notin> set es"
proof (induction idxs arbitrary: r h d r' es)
  case Nil
  then show ?case by simp
next
  case (Cons i idxs)
  then show ?case
    by (auto simp: Let_def split: sum.splits prod.splits option.splits
        dest: remove_known_host_quiet)
qed

lemma LibcloudRunner_start_nodes_quiet:
  "LibcloudRunner_start_nodes w r h n = (res, r', es) \<Longrightarrow> Stop_nodes \<notin> set es"
  by (auto simp: LibcloudRunner_start_nodes_def split: prod.splits option.splits
      dest: start_nodes_loop_quiet)

lemma start_nodes_quiet: "start_nodes w r h n = (res, r', es) \<Longrightarrow> Stop_nodes \<notin> set es"
  by (auto simp: start_nodes_def split: runner.splits prod.splits
      dest: VagrantRunner_start_nodes_quiet LibcloudRunner_start_nodes_quiet)

lemma run_client_tests_quiet: "run_client_tests w h n = (res, es) \<Longrightarrow> Stop_nodes \<notin> set es"
  by (auto simp: run_client_tests_def split: prod.splits sum.splits
      dest: run_quiet perform_quiet)

lemma run_cluster_tests_quiet:
  "run_cluster_tests w h ns c as vb ta = (res, es) \<Longrightarrow> Stop_nodes \<notin> set es"
  by (auto simp: run_cluster_tests_def Let_def split: prod.splits dest: run_quiet)

lemma do_client_quiet:
  "do_client_acceptance_tests w r ta h = (res, r', es) \<Longrightarrow> Stop_nodes \<notin> set es"
  by (auto simp: do_client_acceptance_tests_def
      split: prod.splits sum.splits option.splits
      dest: start_nodes_quiet perform_quiet run_client_tests_quiet)

lemma do_cluster_quiet:
  "do_cluster_acceptance_tests w r ta h = (res, r', es) \<Longrightarrow> Stop_nodes \<notin> set es"
  by (auto simp: do_cluster_acceptance_tests_def
      split: prod.splits sum.splits option.splits
      dest: start_nodes_quiet perform_quiet run_cluster_tests_quiet)

lemma test_type_runner_quiet:
  "test_type_runner t w r ta h = (res, r', es) \<Longrightarrow> Stop_nodes \<notin> set es"
  by (cases t) (auto simp: test_type_runner_def dest: do_client_quiet do_cluster_quiet)

lemma stop_nodes_loop_quiet: "Stop_nodes \<notin> set (stop_nodes_loop w h ns)"
  by (induction ns arbitrary: h) (auto simp: Let_def split: option.splits)

lemma stop_nodes_once: "stop_nodes w r h = (res, es) \<Longrightarrow> count_list es Stop_nodes = 1"
  by (auto simp: stop_nodes_def VagrantRunner_stop_nodes_def LibcloudRunner_stop_nodes_def
      stop_nodes_loop_quiet
      split: runner.splits prod.splits dest: run_quiet)

text \<open>
  C1. The teardown decision of \<open>main\<close>. The workflow fails when it raises or returns a
  result other than 0, that is, when its outcome is not \<open>Inr 0\<close>. When it fails and the
  operator passed \<open>keep\<close>, \<open>main\<close> never invokes the runner's \<open>stop_nodes\<close>; in every
  other case (success with or without \<open>keep\<close>, failure without \<open>keep\<close>) it invokes
  \<open>stop_nodes\<close> exactly once.
\<close>

theorem main_stop_nodes:
  "count_list (snd (main w opts)) Stop_nodes =
     (if fst (test_type_runner (opt_type opts) w (opt_runner opts) (opt_trial_args opts) [])
           \<noteq> Inr 0 \<and> opt_keep opts
      then 0 else 1)"
proof -
  obtain outcome r1 es1 where
    t: "test_type_runner (opt_type opts) w (opt_runner opts) (opt_trial_args opts) [] =
          (outcome, r1, es1)"
    by (cases "test_type_runner (opt_type opts) w (opt_runner opts) (opt_trial_args opts) []")
  have q: "count_list es1 Stop_nodes = 0"
    using test_type_runner_quiet [OF t] by simp
  obtain res es2 where s: "stop_nodes w r1 es1 = (res, es2)"
    by (cases "stop_nodes w r1 es1")
  have o: "count_list es2 Stop_nodes = 1"
    using stop_nodes_once [OF s] .
  show ?thesis
    using t q s o by (cases outcome; cases res) (auto simp: main_def Let_def)
qed

subsection \<open>The client tests\<close>

text \<open>
  C2. The exit code of a test leg. A process that ran and exited with status \<open>N\<close> gives
  \<open>N\<close> as the result of its leg; a process terminated by a signal, with no exit code,
  gives the failure itself, which goes on as a raised error and is neither an exit code
  nor a success. For the client tests, whose run spawned the local leg with outcome
  \<open>d1\<close> and performed the remote leg with outcome \<open>d2\<close>: a remote leg that exits with
  code 3 after a local leg that exited gives the result 3; the result of two legs that
  exited is 0 only if both exited with 0; a leg terminated by a signal makes the run
  raise. The combination of the two legs is the one modelled from the spec.
\<close>

theorem client_tests_exit_codes:
  "(exited d N \<longrightarrow> addCallbacks d = Inr N) \<and>
   addCallbacks (Some (ProcessTerminated None sg)) = Inl (ProcessTerminated None sg) \<and>
   (run_client_tests w h n = (res, [Run c p env d1, Perform eff d2]) \<longrightarrow>
      (exited d1 M \<and> exited d2 3 \<longrightarrow> res = Inr 3) \<and>
      (exited d1 M \<and> exited d2 K \<longrightarrow>
         res = Inr (if K \<noteq> 0 then K else M) \<and> (res = Inr 0 \<longleftrightarrow> M = 0 \<and> K = 0)) \<and>
      (exited d1 M \<and> d2 = Some (ProcessTerminated None sg) \<longrightarrow>
         res = Inl (ProcessTerminated None sg)) \<and>
      (d1 = Some (ProcessTerminated None sg) \<longrightarrow> res = Inl (ProcessTerminated None sg)))"
proof -
  have leg: "addCallbacks x = Inr y" if "exited x y" for x y
    using that by (auto simp: exited_def addCallbacks_def check_result_def)
  have sgn: "addCallbacks (Some (ProcessTerminated None s)) = Inl (ProcessTerminated None s)" for s
    by (simp add: addCallbacks_def check_result_def)
  have res: "res = sequence_legs [addCallbacks d1, addCallbacks d2]"
    if "run_client_tests w h n = (res, [Run c p env d1, Perform eff d2])"
    using that
    by (auto simp: run_client_tests_def run_def perform_def Let_def split: sum.splits)
  show ?thesis
    using leg sgn res by (auto simp: leg sgn)
qed

theorem client_tests_exit_codes_witness:
  "run_client_tests remote_exit_3_world [] sample_node =
     (Inr 3,
      [Run [''trial'', ''flocker.cli''] None None None,
       Perform (run_remotely ''root'' ''10.0.0.0'' task_client_installation_test)
         (Some (ProcessTerminated (Some 3) None))]) \<and>
   exited None 0 \<and> exited (Some (ProcessTerminated (Some 3) None)) 3 \<and>
   addCallbacks (Some (ProcessTerminated (Some 3) None)) = Inr 3"
proof -
  have r: "run_client_tests remote_exit_3_world [] sample_node =
     (Inr 3,
      [Run [''trial'', ''flocker.cli''] None None None,
       Perform (run_remotely ''root'' ''10.0.0.0'' task_client_installation_test)
         (Some (ProcessTerminated (Some 3) None))])"
    by (simp add: run_client_tests_def run_def perform_def get_default_username_def
        remote_exit_3_world_def calm_world_def sample_node_def addCallbacks_def
        check_result_def Let_def)
  have e1: "exited None 0" by (simp add: exited_def)
  have e3: "exited (Some (ProcessTerminated (Some 3) None)) 3" by (simp add: exited_def)
  show ?thesis
    using client_tests_exit_codes
      [of "Some (ProcessTerminated (Some 3) None)" 3 None remote_exit_3_world "[]" sample_node
        "Inr 3" "[''trial'', ''flocker.cli'']" None None None
        "run_remotely ''root'' ''10.0.0.0'' task_client_installation_test"
        "Some (ProcessTerminated (Some 3) None)" 0 3]
      r e1 e3 by simp
qed

text \<open>What the calm world answers.\<close>

lemma calm_world_simps:
  "run_outcome calm_world h c p env = None"
  "perform_outcome calm_world h eff = None"
  "create_node_outcome calm_world h nm d md = Inr (LibcloudNode (''10.0.0.'' @ [last nm]) d nm)"
  "destroy_outcome calm_world h n = None"
  "default_username calm_world n = ''root''"
  "os_environ calm_world = [''HOME'' \<mapsto> ''/root'']"
  "vagrant_version calm_world v = v"
  by (simp_all add: calm_world_def)

text \<open>
  C3, at an input where the code departs from it. The client workflow is given the
  selector list \<open>suiteA\<close>: it does what it does for the empty list, and the only test
  command it spawns is \<open>trial flocker.cli\<close>, so the selector is not run.
\<close>

theorem client_ignores_trial_args:
  "do_client_acceptance_tests w r [''suiteA''] h = do_client_acceptance_tests w r [] h \<and>
   commands_run (snd (snd (do_client_acceptance_tests calm_world (LibcloudRunner sample_cloud)
      [''suiteA''] []))) =
     [[''ssh-keygen'', ''-R'', ''10.0.0.0''], [''trial'', ''flocker.cli'']]"
proof -
  have a: "do_client_acceptance_tests w r [''suiteA''] h = do_client_acceptance_tests w r [] h"
    by (simp add: do_client_acceptance_tests_def)
  have l: "start_nodes_loop calm_world sample_cloud [] [0] =
     (None, sample_cloud\<lparr>nodes := [LibcloudNode ''10.0.0.0'' ''ubuntu-14.04'' ''acceptance-test-alice-0'']\<rparr>,
      [Print (Creating_node 0 ''acceptance-test-alice-0''),
       Create_node ''acceptance-test-alice-0'' ''ubuntu-14.04''
         (node_metadata sample_cloud)
         (Inr (LibcloudNode ''10.0.0.0'' ''ubuntu-14.04'' ''acceptance-test-alice-0'')),
       Run [''ssh-keygen'', ''-R'', ''10.0.0.0''] None None None])"
    by (simp add: Let_def calm_world_simps node_name_def str_nat.simps
        remove_known_host_def run_def)
      (simp add: sample_cloud_def)
  have u: "[0..<nat 1] = [0]" by simp
  have s: "LibcloudRunner_start_nodes calm_world sample_cloud [] 1 =
     (Inr [LibcloudNode ''10.0.0.0'' ''ubuntu-14.04'' ''acceptance-test-alice-0''],
      sample_cloud\<lparr>nodes := [LibcloudNode ''10.0.0.0'' ''ubuntu-14.04'' ''acceptance-test-alice-0'']\<rparr>,
      [Print (Creating_node 0 ''acceptance-test-alice-0''),
       Create_node ''acceptance-test-alice-0'' ''ubuntu-14.04''
         (node_metadata sample_cloud)
         (Inr (LibcloudNode ''10.0.0.0'' ''ubuntu-14.04'' ''acceptance-test-alice-0'')),
       Run [''ssh-keygen'', ''-R'', ''10.0.0.0''] None None None])"
    unfolding LibcloudRunner_start_nodes_def u l by simp
  have b: "commands_run (snd (snd (do_client_acceptance_tests calm_world
      (LibcloudRunner sample_cloud) [''suiteA''] []))) =
     [[''ssh-keygen'', ''-R'', ''10.0.0.0''], [''trial'', ''flocker.cli'']]"
    by (simp add: do_client_acceptance_tests_def start_nodes_def
        s first_node_def perform_def run_client_tests_def
        run_def get_default_username_def commands_run_def Let_def calm_world_simps)
  show ?thesis using a b by simp
qed

subsection \<open>The vagrant runner\<close>

text \<open>The events a single call adds.\<close>

lemma run_events: "run w h c p env = (d, es) \<Longrightarrow> es = [Run c p env d]"
  by (auto simp: run_def Let_def)

lemma perform_events: "perform w h eff = (d, es) \<Longrightarrow> es = [Perform eff d]"
  by (auto simp: perform_def Let_def)

lemma remove_known_host_events:
  "remove_known_host w h a = (d, es) \<Longrightarrow> es = [Run [''ssh-keygen'', ''-R'', a] None None d]"
  by (auto simp: remove_known_host_def dest: run_events)

lemma vagrant_prepare_unfailed:
  "vagrant_prepare w h as = (d, es) \<Longrightarrow> \<not> list_ex failed_event es \<Longrightarrow> d = None"
proof (induction as arbitrary: h d es)
  case Nil
  then show ?case by simp
next
  case (Cons a as)
  then show ?case
    by (auto split: prod.splits option.splits
        dest!: remove_known_host_events perform_events)
qed

text \<open>
  C5. \<open>VagrantRunner.start_nodes\<close> and the size of its pool. For every \<open>node_count\<close>
  other than 2 it fails with \<open>NotImplementedError\<close> and has added no event: neither
  \<open>vagrant destroy\<close> nor \<open>vagrant up\<close> has run. With \<open>node_count = 2\<close>, a pool it returns
  has exactly 2 nodes, whose addresses are the fixed ones, and it returns this pool
  whenever none of its calls failed.
\<close>

theorem vagrant_start_nodes_count:
  "(node_count \<noteq> 2 \<longrightarrow>
      VagrantRunner_start_nodes w r h node_count =
        (Inl (NotImplementedError ''Vagrant start_nodes must start 2 nodes''), [])) \<and>
   (VagrantRunner_start_nodes w r h 2 = (Inr ns, es) \<longrightarrow>
      length ns = 2 \<and> map address ns = [''172.16.255.240'', ''172.16.255.241'']) \<and>
   (VagrantRunner_start_nodes w r h 2 = (res, es) \<and> \<not> list_ex failed_event es \<longrightarrow>
      res = Inr [VagrantNode ''172.16.255.240'' (distribution r),
                 VagrantNode ''172.16.255.241'' (distribution r)])"
proof -
  have a: "VagrantRunner_start_nodes w r h node_count =
        (Inl (NotImplementedError ''Vagrant start_nodes must start 2 nodes''), [])"
    if "node_count \<noteq> 2"
    using that by (simp add: VagrantRunner_start_nodes_def)
  have b: "ns = [VagrantNode ''172.16.255.240'' (distribution r),
                 VagrantNode ''172.16.255.241'' (distribution r)]"
    if "VagrantRunner_start_nodes w r h 2 = (Inr ns, es)"
    using that
    by (auto simp: VagrantRunner_start_nodes_def NODE_ADDRESSES_def Let_def
        split: prod.splits option.splits)
  have c0: "res = Inr (map (\<lambda>a. VagrantNode a (distribution r)) NODE_ADDRESSES)"
    if "VagrantRunner_start_nodes w r h 2 = (res, es)" "\<not> list_ex failed_event es"
    using that
    by (auto simp: VagrantRunner_start_nodes_def Let_def
        split: prod.splits option.splits dest!: run_events dest: vagrant_prepare_unfailed)
  have c: "res = Inr [VagrantNode ''172.16.255.240'' (distribution r),
                 VagrantNode ''172.16.255.241'' (distribution r)]"
    if "VagrantRunner_start_nodes w r h 2 = (res, es)" "\<not> list_ex failed_event es"
    using c0 [OF that] by (simp add: NODE_ADDRESSES_def)
  show ?thesis using a b c by auto
qed


theorem vagrant_start_nodes_count_witness:
  "(1::int) \<noteq> 2 \<and>
   VagrantRunner_start_nodes calm_world sample_vagrant [] 1 =
     (Inl (NotImplementedError ''Vagrant start_nodes must start 2 nodes''), []) \<and>
   fst (VagrantRunner_start_nodes calm_world sample_vagrant [] 2) =
     Inr [VagrantNode ''172.16.255.240'' ''ubuntu-14.04'',
          VagrantNode ''172.16.255.241'' ''ubuntu-14.04''] \<and>
   commands_run (snd (VagrantRunner_start_nodes calm_world sample_vagrant [] 2)) =
     [[''vagrant'', ''destroy'', ''-f''], [''vagrant'', ''up''],
      [''ssh-keygen'', ''-R'', ''172.16.255.240''], [''ssh-keygen'', ''-R'', ''172.16.255.241'']] \<and>
   \<not> list_ex failed_event (snd (VagrantRunner_start_nodes calm_world sample_vagrant [] 2))"
proof -
  obtain res es where r: "VagrantRunner_start_nodes calm_world sample_vagrant [] 2 = (res, es)"
    by (cases "VagrantRunner_start_nodes calm_world sample_vagrant [] 2")
  have es: "es =
     [Run [''vagrant'', ''destroy'', ''-f'']
        (Some ''/flocker/admin/vagrant-acceptance-targets/ubuntu-14.04'') None None,
      Run [''vagrant'', ''up'']
        (Some ''/flocker/admin/vagrant-acceptance-targets/ubuntu-14.04'')
        (Some [''HOME'' \<mapsto> ''/root'']) None,
      Run [''ssh-keygen'', ''-R'', ''172.16.255.240''] None None None,
      Perform (run_remotely ''root'' ''172.16.255.240'' task_pull_docker_images) None,
      Run [''ssh-keygen'', ''-R'', ''172.16.255.241''] None None None,
      Perform (run_remotely ''root'' ''172.16.255.241'' task_pull_docker_images) None]"
    using r
    by (simp add: VagrantRunner_start_nodes_def NODE_ADDRESSES_def run_def perform_def
        remove_known_host_def Let_def calm_world_simps truthy_def sample_vagrant_def)
  have q: "\<not> list_ex failed_event es"
    by (simp add: es)
  have d: "distribution sample_vagrant = ''ubuntu-14.04''"
    by (simp add: sample_vagrant_def)
  have c: "commands_run es =
     [[''vagrant'', ''destroy'', ''-f''], [''vagrant'', ''up''],
      [''ssh-keygen'', ''-R'', ''172.16.255.240''], [''ssh-keygen'', ''-R'', ''172.16.255.241'']]"
    by (simp add: es commands_run_def)
  show ?thesis
    using vagrant_start_nodes_count [of 1 calm_world sample_vagrant "[]"]
      vagrant_start_nodes_count [of 2 calm_world sample_vagrant "[]" _ es res] r q d c
    by simp
qed

subsection \<open>The cloud runner: starting nodes\<close>

text \<open>
  The loop of \<open>start_nodes\<close> ends in one of three ways. With no failure: no call failed
  and the nodes it created, one for each index, are the ones it appended. With a
  failure: the events up to the failing iteration hold no failed call, the nodes created
  in them are the ones appended, and the last iteration either failed to create its node
  or created it and failed to clean the known hosts for it.
\<close>

lemma created_nodes_simps:
  "created_nodes [] = []"
  "created_nodes (e # es) = created e @ created_nodes es"
  "created_nodes (xs @ ys) = created_nodes xs @ created_nodes ys"
  by (simp_all add: created_nodes_def)

lemma start_nodes_loop_success:
  "start_nodes_loop w r h idxs = (None, r', es) \<Longrightarrow>
     \<not> list_ex failed_event es \<and> r' = r\<lparr>nodes := nodes r @ created_nodes es\<rparr> \<and>
     length (created_nodes es) = length idxs"
proof (induction idxs arbitrary: r h r' es)
  case Nil
  then show ?case by (simp add: created_nodes_simps)
next
  case (Cons i idxs)
  let ?p = "Print (Creating_node i (node_name r i))"
  let ?c = "create_node_outcome w (h @ [?p]) (node_name r i) (distribution r) (node_metadata r)"
  let ?ev = "Create_node (node_name r i) (distribution r) (node_metadata r) ?c"
  obtain n where c: "?c = Inr n"
    using Cons.prems by (cases ?c) (auto simp: Let_def)
  obtain d2 es2 where k: "remove_known_host w (h @ [?p, ?ev]) (address n) = (d2, es2)"
    by (cases "remove_known_host w (h @ [?p, ?ev]) (address n)")
  have d2: "d2 = None"
    using Cons.prems c k by (cases d2) (auto simp: Let_def)
  have es2: "es2 = [Run [''ssh-keygen'', ''-R'', address n] None None None]"
    using remove_known_host_events [OF k] d2 by simp
  obtain es3 where
    l: "start_nodes_loop w (r\<lparr>nodes := nodes r @ [n]\<rparr>) (h @ [?p, ?ev] @ es2) idxs =
          (None, r', es3)" and
    es: "es = [?p, ?ev] @ es2 @ es3"
    using Cons.prems c k d2 by (auto simp: Let_def split: prod.splits)
  from Cons.IH [OF l] show ?case
    using es es2 c by (auto simp: created_nodes_simps)
qed

lemma start_nodes_loop_failure:
  "start_nodes_loop w r h idxs = (Some e, r', es) \<Longrightarrow>
     \<exists>pre. \<not> list_ex failed_event pre \<and> r' = r\<lparr>nodes := nodes r @ created_nodes pre\<rparr> \<and>
       ((\<exists>i nm dd md. es = pre @ [Create_node nm dd md (Inl e),
            Print (Error_creating_node i nm), Print It_may_have_leaked]) \<or>
        (\<exists>nm dd md n. es = pre @ [Create_node nm dd md (Inr n),
            Run [''ssh-keygen'', ''-R'', address n] None None (Some e)]))"
proof (induction idxs arbitrary: r h r' es)
  case Nil
  then show ?case by simp
next
  case (Cons i idxs)
  let ?p = "Print (Creating_node i (node_name r i))"
  let ?c = "create_node_outcome w (h @ [?p]) (node_name r i) (distribution r) (node_metadata r)"
  let ?ev = "Create_node (node_name r i) (distribution r) (node_metadata r) ?c"
  show ?case
  proof (cases ?c)
    case (Inl e')
    with Cons.prems have "e' = e" "r' = r"
      "es = [?p] @ [Create_node (node_name r i) (distribution r) (node_metadata r) (Inl e),
         Print (Error_creating_node i (node_name r i)), Print It_may_have_leaked]"
      by (auto simp: Let_def)
    then show ?thesis
      by (intro exI [of _ "[?p]"]) (auto simp: created_nodes_simps)
  next
    case (Inr n)
    obtain d2 es2 where k: "remove_known_host w (h @ [?p, ?ev]) (address n) = (d2, es2)"
      by (cases "remove_known_host w (h @ [?p, ?ev]) (address n)")
    have es2: "es2 = [Run [''ssh-keygen'', ''-R'', address n] None None d2]"
      using remove_known_host_events [OF k] .
    show ?thesis
    proof (cases d2)
      case (Some e')
      with Cons.prems Inr k have "e' = e" "r' = r"
        "es = [?p] @ [Create_node (node_name r i) (distribution r) (node_metadata r) (Inr n),
           Run [''ssh-keygen'', ''-R'', address n] None None (Some e)]"
        by (auto simp: Let_def es2)
      then show ?thesis
        by (intro exI [of _ "[?p]"]) (auto simp: created_nodes_simps)
    next
      case None
      obtain es3 where
        l: "start_nodes_loop w (r\<lparr>nodes := nodes r @ [n]\<rparr>) (h @ [?p, ?ev] @ es2) idxs =
              (Some e, r', es3)" and
        es: "es = [?p, ?ev] @ es2 @ es3"
        using Cons.prems Inr k None
        by (auto simp: Let_def split: prod.splits)
      from Cons.IH [OF l] obtain pre where
        p: "\<not> list_ex failed_event pre"
           "r' = r\<lparr>nodes := nodes r @ [n] @ created_nodes pre\<rparr>"
           "(\<exists>i nm dd md. es3 = pre @ [Create_node nm dd md (Inl e),
                Print (Error_creating_node i nm), Print It_may_have_leaked]) \<or>
            (\<exists>nm dd md n. es3 = pre @ [Create_node nm dd md (Inr n),
                Run [''ssh-keygen'', ''-R'', address n] None None (Some e)])"
        by auto
      show ?thesis
        using p es es2 None Inr
        by (intro exI [of _ "[?p, ?ev] @ es2 @ pre"]) (auto simp: created_nodes_simps)
    qed
  qed
qed


lemma node_name_nodes: "node_name (r\<lparr>nodes := ns\<rparr>) i = node_name r i"
  by (simp add: node_name_def)

lemma created_names_simps:
  "created_names [] = []"
  "created_names (e # es) = creation e @ created_names es"
  "created_names (xs @ ys) = created_names xs @ created_names ys"
  by (simp_all add: created_names_def)

lemma start_nodes_loop_names:
  "start_nodes_loop w r h idxs = (d, r', es) \<Longrightarrow>
     \<exists>k\<le>length idxs. created_names es = map (node_name r) (take k idxs) \<and>
       (idxs \<noteq> [] \<longrightarrow> 0 < k)"
proof (induction idxs arbitrary: r h d r' es)
  case Nil
  then show ?case by (simp add: created_names_simps)
next
  case (Cons i idxs)
  let ?p = "Print (Creating_node i (node_name r i))"
  let ?c = "create_node_outcome w (h @ [?p]) (node_name r i) (distribution r) (node_metadata r)"
  let ?ev = "Create_node (node_name r i) (distribution r) (node_metadata r) ?c"
  show ?case
  proof (cases ?c)
    case (Inl e)
    with Cons.prems have "created_names es = [node_name r i]"
      by (auto simp: Let_def created_names_simps)
    then show ?thesis
      by (intro exI [of _ 1]) simp
  next
    case (Inr n)
    obtain d2 es2 where k: "remove_known_host w (h @ [?p, ?ev]) (address n) = (d2, es2)"
      by (cases "remove_known_host w (h @ [?p, ?ev]) (address n)")
    have es2: "es2 = [Run [''ssh-keygen'', ''-R'', address n] None None d2]"
      using remove_known_host_events [OF k] .
    show ?thesis
    proof (cases d2)
      case (Some e)
      with Cons.prems Inr k have "created_names es = [node_name r i]"
        by (auto simp: Let_def created_names_simps es2)
      then show ?thesis
        by (intro exI [of _ 1]) simp
    next
      case None
      obtain es3 where
        l: "start_nodes_loop w (r\<lparr>nodes := nodes r @ [n]\<rparr>) (h @ [?p, ?ev] @ es2) idxs =
              (d, r', es3)" and
        es: "es = [?p, ?ev] @ es2 @ es3"
        using Cons.prems Inr k None
        by (auto simp: Let_def split: prod.splits)
      from Cons.IH [OF l] obtain k' where
        k': "k' \<le> length idxs" "created_names es3 = map (node_name r) (take k' idxs)"
        by (auto simp: node_name_nodes)
      show ?thesis
        using k' es es2
        by (intro exI [of _ "Suc k'"]) (simp add: created_names_simps)
    qed
  qed
qed

lemma destroy_attempts_simps:
  "destroy_attempts [] = []"
  "destroy_attempts (e # es) = destroyed e @ destroy_attempts es"
  "destroy_attempts (xs @ ys) = destroy_attempts xs @ destroy_attempts ys"
  by (simp_all add: destroy_attempts_def)

lemma stop_nodes_loop_attempts: "destroy_attempts (stop_nodes_loop w h ns) = ns"
  by (induction ns arbitrary: h)
    (auto simp: Let_def destroy_attempts_simps split: option.splits)

lemma stop_nodes_loop_logged:
  "destroy_failures (stop_nodes_loop w h ns) = logged_failures (stop_nodes_loop w h ns)"
  by (induction ns arbitrary: h)
    (auto simp: Let_def destroy_failures_def logged_failures_def split: option.splits)

lemma Destroy_attempted: "Destroy n d \<in> set es \<Longrightarrow> n \<in> set (destroy_attempts es)"
  by (force simp: destroy_attempts_def)

lemma failed_in_unfailed: "\<not> list_ex failed_event es \<Longrightarrow> x \<in> set es \<Longrightarrow> \<not> failed_event x"
  by (auto simp: list_ex_iff)


text \<open>
  C4. When \<open>start_nodes\<close> of the cloud runner fails to create an instance, the
  exception of \<open>create_node\<close> is its result, the failed call is followed by the two
  printed lines only (no retry, no further call) and preceded by no failed call, and
  every instance created in this run is in the runner's list of nodes, after the ones
  it held before; a later \<open>stop_nodes\<close> calls \<open>destroy\<close> on each of them. The
  failure meant is the one of \<open>create_node\<close>; the run that fails in the cleanup of the
  known hosts is the subject of C9.
\<close>

theorem start_nodes_create_failure:
  assumes "LibcloudRunner_start_nodes w r h node_count = (res, r', es)"
    and "Create_node nm dd md (Inl e) \<in> set es"
  shows "res = Inl e \<and>
    (\<exists>pre i. es = pre @ [Create_node nm dd md (Inl e), Print (Error_creating_node i nm),
        Print It_may_have_leaked] \<and> \<not> list_ex failed_event pre) \<and>
    nodes r' = nodes r @ created_nodes es \<and>
    destroy_attempts (snd (LibcloudRunner_stop_nodes w' r' h')) = nodes r @ created_nodes es"
proof -
  obtain d where l: "start_nodes_loop w r h [0 ..< nat node_count] = (d, r', es)"
    and res: "res = (case d of None \<Rightarrow> Inr (nodes r') | Some e' \<Rightarrow> Inl e')"
    using assms(1)
    by (auto simp: LibcloudRunner_start_nodes_def split: prod.splits option.splits)
  have f: "failed_event (Create_node nm dd md (Inl e))" by simp
  show ?thesis
  proof (cases d)
    case None
    with start_nodes_loop_success l assms(2) f show ?thesis
      by (metis failed_in_unfailed)
  next
    case (Some e')
    from start_nodes_loop_failure [OF l [unfolded Some]] obtain pre where
      p: "\<not> list_ex failed_event pre" "r' = r\<lparr>nodes := nodes r @ created_nodes pre\<rparr>" and
      c: "(\<exists>i nm dd md. es = pre @ [Create_node nm dd md (Inl e'),
              Print (Error_creating_node i nm), Print It_may_have_leaked]) \<or>
          (\<exists>nm dd md n. es = pre @ [Create_node nm dd md (Inr n),
              Run [''ssh-keygen'', ''-R'', address n] None None (Some e')])"
      by auto
    have np: "Create_node nm dd md (Inl e) \<notin> set pre"
      using failed_in_unfailed [OF p(1)] f by blast
    from c show ?thesis
    proof
      assume "\<exists>i nm dd md. es = pre @ [Create_node nm dd md (Inl e'),
              Print (Error_creating_node i nm), Print It_may_have_leaked]"
      then obtain i nm' dd' md' where
        es: "es = pre @ [Create_node nm' dd' md' (Inl e'),
              Print (Error_creating_node i nm'), Print It_may_have_leaked]"
        by auto
      with assms(2) np have eq: "nm' = nm" "dd' = dd" "md' = md" "e' = e"
        by auto
      have cr: "created_nodes es = created_nodes pre"
        by (simp add: es created_nodes_simps)
      show ?thesis
        using es eq p res Some cr
        by (auto simp: LibcloudRunner_stop_nodes_def stop_nodes_loop_attempts)
    next
      assume "\<exists>nm dd md n. es = pre @ [Create_node nm dd md (Inr n),
              Run [''ssh-keygen'', ''-R'', address n] None None (Some e')]"
      with assms(2) np show ?thesis by auto
    qed
  qed
qed

text \<open>
  C9. In \<open>start_nodes\<close> of the cloud runner a node is appended to the list of nodes
  only after the known hosts are cleaned for its address. When a command of
  \<open>start_nodes\<close> fails, it is that cleanup for the node \<open>n\<close> created just before; the
  failure is the result; \<open>n\<close> is the last node created and the list of nodes holds the
  nodes created before it only. A later \<open>stop_nodes\<close> calls \<open>destroy\<close> on the nodes of
  the list, so on \<open>n\<close> only if an equal node is in the list.
\<close>

theorem start_nodes_known_host_failure:
  assumes "LibcloudRunner_start_nodes w r h node_count = (res, r', es)"
    and "Run c p env (Some e) \<in> set es"
  shows "res = Inl e \<and>
    (\<exists>pre nm dd md n.
       es = pre @ [Create_node nm dd md (Inr n),
                   Run [''ssh-keygen'', ''-R'', address n] None None (Some e)] \<and>
       c = [''ssh-keygen'', ''-R'', address n] \<and>
       created_nodes es = created_nodes pre @ [n] \<and>
       nodes r' = nodes r @ created_nodes pre \<and>
       destroy_attempts (snd (LibcloudRunner_stop_nodes w' r' h')) =
         nodes r @ created_nodes pre \<and>
       (n \<notin> set (nodes r @ created_nodes pre) \<longrightarrow>
          (\<forall>d. Destroy n d \<notin> set (snd (LibcloudRunner_stop_nodes w' r' h')))))"
proof -
  obtain d where l: "start_nodes_loop w r h [0 ..< nat node_count] = (d, r', es)"
    and res: "res = (case d of None \<Rightarrow> Inr (nodes r') | Some e' \<Rightarrow> Inl e')"
    using assms(1)
    by (auto simp: LibcloudRunner_start_nodes_def split: prod.splits option.splits)
  have f: "failed_event (Run c p env (Some e))" by simp
  show ?thesis
  proof (cases d)
    case None
    with start_nodes_loop_success l assms(2) f show ?thesis
      by (metis failed_in_unfailed)
  next
    case (Some e')
    from start_nodes_loop_failure [OF l [unfolded Some]] obtain pre where
      p: "\<not> list_ex failed_event pre" "r' = r\<lparr>nodes := nodes r @ created_nodes pre\<rparr>" and
      c: "(\<exists>i nm dd md. es = pre @ [Create_node nm dd md (Inl e'),
              Print (Error_creating_node i nm), Print It_may_have_leaked]) \<or>
          (\<exists>nm dd md n. es = pre @ [Create_node nm dd md (Inr n),
              Run [''ssh-keygen'', ''-R'', address n] None None (Some e')])"
      by auto
    have np: "Run c p env (Some e) \<notin> set pre"
      using failed_in_unfailed [OF p(1)] f by blast
    from c show ?thesis
    proof
      assume "\<exists>i nm dd md. es = pre @ [Create_node nm dd md (Inl e'),
              Print (Error_creating_node i nm), Print It_may_have_leaked]"
      with assms(2) np show ?thesis by auto
    next
      assume "\<exists>nm dd md n. es = pre @ [Create_node nm dd md (Inr n),
              Run [''ssh-keygen'', ''-R'', address n] None None (Some e')]"
      then obtain nm dd md n where
        es: "es = pre @ [Create_node nm dd md (Inr n),
              Run [''ssh-keygen'', ''-R'', address n] None None (Some e')]"
        by auto
      with assms(2) np have eq: "c = [''ssh-keygen'', ''-R'', address n]" "e' = e"
        by auto
      have cr: "created_nodes es = created_nodes pre @ [n]"
        by (simp add: es created_nodes_simps)
      have att: "destroy_attempts (snd (LibcloudRunner_stop_nodes w' r' h')) =
          nodes r @ created_nodes pre"
        using p by (simp add: LibcloudRunner_stop_nodes_def stop_nodes_loop_attempts)
      have nd: "\<forall>d. Destroy n d \<notin> set (snd (LibcloudRunner_stop_nodes w' r' h'))"
        if "n \<notin> set (nodes r @ created_nodes pre)"
        using that att Destroy_attempted by metis
      show ?thesis
        using es eq p res Some cr att nd by auto
    qed
  qed
qed


text \<open>The sample runs, evaluated.\<close>

lemma node_metadata_nodes: "node_metadata (r\<lparr>nodes := ns\<rparr>) = node_metadata r"
  by (simp add: node_metadata_def)

lemma sample_cloud_simps:
  "creator sample_cloud = ''alice''"
  "distribution sample_cloud = ''ubuntu-14.04''"
  "nodes sample_cloud = []"
  by (simp_all add: sample_cloud_def)

lemma sample_names:
  "node_name sample_cloud 0 = ''acceptance-test-alice-0''"
  "node_name sample_cloud (Suc 0) = ''acceptance-test-alice-1''"
  by (simp_all add: node_name_def sample_cloud_simps str_nat.simps)

lemma two_indices: "[0 ..< nat 2] = [0, Suc 0]"
  by (simp add: upt_rec)

lemma quota_world_simps:
  "run_outcome quota_world h c p env = None"
  "create_node_outcome quota_world h nm d md =
     (if nm = ''acceptance-test-alice-1'' then Inl (OtherError ''quota'')
      else Inr (LibcloudNode (''10.0.0.'' @ [last nm]) d nm))"
  by (simp_all add: quota_world_def calm_world_def)

theorem start_nodes_create_failure_witness:
  "fst (LibcloudRunner_start_nodes quota_world sample_cloud [] 2) = Inl (OtherError ''quota'') \<and>
   created_nodes (snd (snd (LibcloudRunner_start_nodes quota_world sample_cloud [] 2))) =
     [sample_node] \<and>
   nodes (fst (snd (LibcloudRunner_start_nodes quota_world sample_cloud [] 2))) =
     [sample_node] \<and>
   destroy_attempts (snd (LibcloudRunner_stop_nodes calm_world
      (fst (snd (LibcloudRunner_start_nodes quota_world sample_cloud [] 2))) [])) =
     [sample_node]"
proof -
  obtain res r' es where
    ev: "LibcloudRunner_start_nodes quota_world sample_cloud [] 2 = (res, r', es)"
    by (cases "LibcloudRunner_start_nodes quota_world sample_cloud [] 2") auto
  have es: "es =
     [Print (Creating_node 0 ''acceptance-test-alice-0''),
      Create_node ''acceptance-test-alice-0'' ''ubuntu-14.04'' (node_metadata sample_cloud)
        (Inr sample_node),
      Run [''ssh-keygen'', ''-R'', ''10.0.0.0''] None None None,
      Print (Creating_node 1 ''acceptance-test-alice-1''),
      Create_node ''acceptance-test-alice-1'' ''ubuntu-14.04'' (node_metadata sample_cloud)
        (Inl (OtherError ''quota'')),
      Print (Error_creating_node 1 ''acceptance-test-alice-1''),
      Print It_may_have_leaked]"
    using ev unfolding LibcloudRunner_start_nodes_def two_indices
    by (simp add: Let_def node_name_nodes
        node_metadata_nodes sample_names sample_cloud_simps quota_world_simps
        remove_known_host_def run_def sample_node_def)
  have m: "Create_node ''acceptance-test-alice-1'' ''ubuntu-14.04'' (node_metadata sample_cloud)
        (Inl (OtherError ''quota'')) \<in> set es"
    by (simp add: es)
  have c: "created_nodes es = [sample_node]"
    by (simp add: es created_nodes_def)
  show ?thesis
    using start_nodes_create_failure [OF ev m, of calm_world "[]"] ev c
    by (simp add: sample_cloud_simps)
qed

lemma stale_host_world_simps:
  "run_outcome stale_host_world h c p env =
     (if c = [''ssh-keygen'', ''-R'', ''10.0.0.1'']
      then Some (ProcessTerminated (Some 255) None) else None)"
  "create_node_outcome stale_host_world h nm d md =
     Inr (LibcloudNode (''10.0.0.'' @ [last nm]) d nm)"
  by (simp_all add: stale_host_world_def calm_world_def)

theorem start_nodes_known_host_failure_witness:
  "fst (LibcloudRunner_start_nodes stale_host_world sample_cloud [] 2) =
     Inl (ProcessTerminated (Some 255) None) \<and>
   created_nodes (snd (snd (LibcloudRunner_start_nodes stale_host_world sample_cloud [] 2))) =
     [sample_node, second_node] \<and>
   nodes (fst (snd (LibcloudRunner_start_nodes stale_host_world sample_cloud [] 2))) =
     [sample_node] \<and>
   destroy_attempts (snd (LibcloudRunner_stop_nodes calm_world
      (fst (snd (LibcloudRunner_start_nodes stale_host_world sample_cloud [] 2))) [])) =
     [sample_node]"
proof -
  obtain res r' es where
    ev: "LibcloudRunner_start_nodes stale_host_world sample_cloud [] 2 = (res, r', es)"
    by (cases "LibcloudRunner_start_nodes stale_host_world sample_cloud [] 2") auto
  have es: "es =
     [Print (Creating_node 0 ''acceptance-test-alice-0''),
      Create_node ''acceptance-test-alice-0'' ''ubuntu-14.04'' (node_metadata sample_cloud)
        (Inr sample_node),
      Run [''ssh-keygen'', ''-R'', ''10.0.0.0''] None None None,
      Print (Creating_node 1 ''acceptance-test-alice-1''),
      Create_node ''acceptance-test-alice-1'' ''ubuntu-14.04'' (node_metadata sample_cloud)
        (Inr second_node),
      Run [''ssh-keygen'', ''-R'', ''10.0.0.1''] None None
        (Some (ProcessTerminated (Some 255) None))]"
    using ev unfolding LibcloudRunner_start_nodes_def two_indices
    by (simp add: Let_def node_name_nodes
        node_metadata_nodes sample_names sample_cloud_simps stale_host_world_simps
        remove_known_host_def run_def sample_node_def second_node_def)
  have m: "Run [''ssh-keygen'', ''-R'', ''10.0.0.1''] None None
        (Some (ProcessTerminated (Some 255) None)) \<in> set es"
    by (simp add: es)
  have c: "created_nodes es = [sample_node, second_node]"
    by (simp add: es created_nodes_def)
  from start_nodes_known_host_failure [OF ev m, of calm_world "[]"] obtain pre n where
    "res = Inl (ProcessTerminated (Some 255) None)"
    "created_nodes es = created_nodes pre @ [n]"
    "nodes r' = nodes sample_cloud @ created_nodes pre"
    "destroy_attempts (snd (LibcloudRunner_stop_nodes calm_world r' [])) =
       nodes sample_cloud @ created_nodes pre"
    by auto
  then show ?thesis
    using ev c by (simp add: sample_cloud_simps)
qed

subsection \<open>The cloud runner: stopping nodes\<close>

text \<open>
  No workflow calls \<open>destroy\<close>: what it does is the same in two worlds that differ in
  the outcomes of \<open>destroy\<close> only.
\<close>

lemma run_destroy_outcome:
  "run (w\<lparr>destroy_outcome := g\<rparr>) h c p env = run w h c p env"
  by (simp add: run_def)

lemma perform_destroy_outcome:
  "perform (w\<lparr>destroy_outcome := g\<rparr>) h eff = perform w h eff"
  by (simp add: perform_def)

lemma remove_known_host_destroy_outcome:
  "remove_known_host (w\<lparr>destroy_outcome := g\<rparr>) h a = remove_known_host w h a"
  by (simp add: remove_known_host_def run_destroy_outcome)

lemma extend_environ_destroy_outcome:
  "extend_environ (w\<lparr>destroy_outcome := g\<rparr>) kw = extend_environ w kw"
  by (simp add: extend_environ_def)

lemma vagrant_prepare_destroy_outcome:
  "vagrant_prepare (w\<lparr>destroy_outcome := g\<rparr>) h as = vagrant_prepare w h as"
  by (induction as arbitrary: h)
    (simp_all add: remove_known_host_destroy_outcome perform_destroy_outcome
      split: prod.splits option.splits)

lemma VagrantRunner_start_nodes_destroy_outcome:
  "VagrantRunner_start_nodes (w\<lparr>destroy_outcome := g\<rparr>) r h n =
     VagrantRunner_start_nodes w r h n"
  by (simp add: VagrantRunner_start_nodes_def run_destroy_outcome
      extend_environ_destroy_outcome vagrant_prepare_destroy_outcome
      split: prod.splits option.splits)

lemma start_nodes_loop_destroy_outcome:
  "start_nodes_loop (w\<lparr>destroy_outcome := g\<rparr>) r h idxs = start_nodes_loop w r h idxs"
  by (induction idxs arbitrary: r h)
    (simp_all add: remove_known_host_destroy_outcome Let_def
      split: prod.splits option.splits sum.splits)

lemma start_nodes_destroy_outcome:
  "start_nodes (w\<lparr>destroy_outcome := g\<rparr>) r h n = start_nodes w r h n"
  by (simp add: start_nodes_def LibcloudRunner_start_nodes_def
      VagrantRunner_start_nodes_destroy_outcome start_nodes_loop_destroy_outcome
      split: runner.splits)

lemma run_client_tests_destroy_outcome:
  "run_client_tests (w\<lparr>destroy_outcome := g\<rparr>) h n = run_client_tests w h n"
  by (simp add: run_client_tests_def run_destroy_outcome perform_destroy_outcome
      get_default_username_def split: prod.splits sum.splits node.splits)

lemma run_cluster_tests_destroy_outcome:
  "run_cluster_tests (w\<lparr>destroy_outcome := g\<rparr>) h ns c as vb ta =
     run_cluster_tests w h ns c as vb ta"
  by (simp add: run_cluster_tests_def run_destroy_outcome extend_environ_destroy_outcome)

lemma test_type_runner_destroy_outcome:
  "test_type_runner t (w\<lparr>destroy_outcome := g\<rparr>) r ta h = test_type_runner t w r ta h"
  by (cases t)
    (simp_all add: test_type_runner_def do_client_acceptance_tests_def
      do_cluster_acceptance_tests_def start_nodes_destroy_outcome perform_destroy_outcome
      run_client_tests_destroy_outcome run_cluster_tests_destroy_outcome
      split: prod.splits option.splits sum.splits)

text \<open>\<open>stop_nodes\<close> returns, and \<open>main\<close> ends as the workflow did.\<close>

lemma stop_nodes_returns: "fst (stop_nodes w r h) = Inr ()"
  by (simp add: stop_nodes_def LibcloudRunner_stop_nodes_def split: runner.splits prod.splits)

lemma main_ending:
  "fst (main w opts) =
     (case fst (test_type_runner (opt_type opts) w (opt_runner opts) (opt_trial_args opts) []) of
        Inl e \<Rightarrow> Raised e | Inr c \<Rightarrow> SystemExit c)"
proof -
  obtain outcome r1 es1 where
    t: "test_type_runner (opt_type opts) w (opt_runner opts) (opt_trial_args opts) [] =
          (outcome, r1, es1)"
    by (cases "test_type_runner (opt_type opts) w (opt_runner opts) (opt_trial_args opts) []")
  obtain res es2 where s: "stop_nodes w r1 es1 = (res, es2)"
    by (cases "stop_nodes w r1 es1")
  have "res = Inr ()"
    using stop_nodes_returns [of w r1 es1] s by simp
  then show ?thesis
    using t s by (cases outcome) (auto simp: main_def Let_def)
qed

text \<open>
  C7. \<open>stop_nodes\<close> of the cloud runner calls \<open>destroy\<close> on every node of its list,
  once each and in order, whichever of the calls raise; it returns and raises nothing;
  every exception of \<open>destroy\<close> is printed with the node's name. The way \<open>main\<close> ends is
  the same whatever the outcomes of \<open>destroy\<close> are: it is the one the workflow's outcome
  gives.
\<close>

theorem stop_nodes_best_effort:
  "fst (LibcloudRunner_stop_nodes w r h) = Inr () \<and>
   destroy_attempts (snd (LibcloudRunner_stop_nodes w r h)) = nodes r \<and>
   destroy_failures (snd (LibcloudRunner_stop_nodes w r h)) =
     logged_failures (snd (LibcloudRunner_stop_nodes w r h)) \<and>
   fst (main (w\<lparr>destroy_outcome := g\<rparr>) opts) = fst (main w opts) \<and>
   fst (main w opts) =
     (case fst (test_type_runner (opt_type opts) w (opt_runner opts) (opt_trial_args opts) []) of
        Inl e \<Rightarrow> Raised e | Inr c \<Rightarrow> SystemExit c)"
proof -
  have a: "fst (LibcloudRunner_stop_nodes w r h) = Inr ()"
    by (simp add: LibcloudRunner_stop_nodes_def)
  have b: "destroy_attempts (snd (LibcloudRunner_stop_nodes w r h)) = nodes r"
    by (simp add: LibcloudRunner_stop_nodes_def stop_nodes_loop_attempts)
  have c: "destroy_failures (snd (LibcloudRunner_stop_nodes w r h)) =
     logged_failures (snd (LibcloudRunner_stop_nodes w r h))"
    by (simp add: LibcloudRunner_stop_nodes_def stop_nodes_loop_logged)
  have d: "fst (main (w\<lparr>destroy_outcome := g\<rparr>) opts) = fst (main w opts)"
    by (simp add: main_ending test_type_runner_destroy_outcome)
  show ?thesis
    using a b c d main_ending [of w opts] by simp
qed

lemma stubborn_world_simps:
  "destroy_outcome stubborn_world h n =
     (if address n = ''10.0.0.0'' then Some (OtherError ''busy'') else None)"
  by (simp add: stubborn_world_def)

theorem stop_nodes_best_effort_witness:
  "snd (LibcloudRunner_stop_nodes stubborn_world
     (sample_cloud\<lparr>nodes := [sample_node, second_node]\<rparr>) []) =
     [Print (Destroying ''acceptance-test-alice-0''),
      Destroy sample_node (Some (OtherError ''busy'')),
      Print (Failed_to_destroy ''acceptance-test-alice-0'' (OtherError ''busy'')),
      Print (Destroying ''acceptance-test-alice-1''),
      Destroy second_node None] \<and>
   destroy_attempts (snd (LibcloudRunner_stop_nodes stubborn_world
     (sample_cloud\<lparr>nodes := [sample_node, second_node]\<rparr>) [])) =
     [sample_node, second_node] \<and>
   fst (LibcloudRunner_stop_nodes stubborn_world
     (sample_cloud\<lparr>nodes := [sample_node, second_node]\<rparr>) []) = Inr ()"
proof -
  have e: "snd (LibcloudRunner_stop_nodes stubborn_world
     (sample_cloud\<lparr>nodes := [sample_node, second_node]\<rparr>) []) =
     [Print (Destroying ''acceptance-test-alice-0''),
      Destroy sample_node (Some (OtherError ''busy'')),
      Print (Failed_to_destroy ''acceptance-test-alice-0'' (OtherError ''busy'')),
      Print (Destroying ''acceptance-test-alice-1''),
      Destroy second_node None]"
    by (simp add: LibcloudRunner_stop_nodes_def Let_def stubborn_world_simps
        sample_node_def second_node_def)
  show ?thesis
    using stop_nodes_best_effort
      [of stubborn_world "sample_cloud\<lparr>nodes := [sample_node, second_node]\<rparr>" "[]"] e
    by simp
qed

subsection \<open>The cloud runner: the creator\<close>

text \<open>The names \<open>start_nodes\<close> creates nodes under are those of the first indices.\<close>

lemma start_nodes_names:
  assumes "LibcloudRunner_start_nodes w r h node_count = (res, r', es)"
  shows "(\<forall>nm\<in>set (created_names es). \<exists>i<nat node_count. nm = node_name r i) \<and>
    (0 < node_count \<longrightarrow> created_names es \<noteq> [] \<and> hd (created_names es) = node_name r 0)"
proof -
  obtain d where l: "start_nodes_loop w r h [0 ..< nat node_count] = (d, r', es)"
    using assms
    by (auto simp: LibcloudRunner_start_nodes_def split: prod.splits option.splits)
  from start_nodes_loop_names [OF l] obtain k where
    k: "k \<le> nat node_count"
       "created_names es = map (node_name r) (take k [0 ..< nat node_count])"
       "[0 ..< nat node_count] \<noteq> [] \<longrightarrow> 0 < k"
    by auto
  have t: "take k [0 ..< nat node_count] = [0 ..< k]"
    using k(1) by simp
  have a: "\<forall>nm\<in>set (created_names es). \<exists>i<nat node_count. nm = node_name r i"
  proof
    fix nm
    assume "nm \<in> set (created_names es)"
    then obtain i where "i < k" "nm = node_name r i"
      by (auto simp: k(2) t)
    with k(1) show "\<exists>i<nat node_count. nm = node_name r i"
      by (intro exI [of _ i]) simp
  qed
  have b: "created_names es \<noteq> [] \<and> hd (created_names es) = node_name r 0"
    if "0 < node_count"
  proof -
    have "0 < k" using that k(3) by simp
    then have "[0 ..< k] = 0 # [1 ..< k]" by (simp add: upt_rec)
    then show ?thesis by (simp add: k(2) t)
  qed
  show ?thesis using a b by blast
qed

text \<open>
  C6. Constructing the cloud runner from a configuration whose metadata has no
  \<open>creator\<close>, or a creator that is not alphanumeric, gives \<open>UsageError\<close>; the
  construction reads the configuration only and adds no event, so no node exists yet.
  With an alphanumeric creator it gives a runner with that creator and no nodes.
  \<open>start_nodes\<close> does not check the creator: whatever string it is, a positive
  \<open>node_count\<close> makes it call \<open>create_node\<close>, and every name it creates a node under
  is \<open>acceptance-test-\<close>, the creator, \<open>-\<close> and the index.
\<close>

theorem creator_validated_at_init:
  "(config_metadata a ''creator'' = None \<longrightarrow>
      LibcloudRunner_init a = Inl (UsageError ''Must specify creator metadata.'')) \<and>
   (config_metadata a ''creator'' = Some c \<and> \<not> isalnum c \<longrightarrow>
      LibcloudRunner_init a = Inl (UsageError ''Creator must be alphanumeric.'')) \<and>
   (config_metadata a ''creator'' = Some c \<and> isalnum c \<longrightarrow>
      (\<exists>r. LibcloudRunner_init a = Inr r \<and> creator r = c \<and> nodes r = [])) \<and>
   (LibcloudRunner_start_nodes w r h node_count = (res, r', es) \<longrightarrow>
      (\<forall>nm\<in>set (created_names es).
         \<exists>i<nat node_count. nm = ''acceptance-test-'' @ creator r @ ''-'' @ str_nat i) \<and>
      (0 < node_count \<longrightarrow>
         created_names es \<noteq> [] \<and>
         hd (created_names es) = ''acceptance-test-'' @ creator r @ ''-0''))"
proof -
  have z: "str_nat 0 = ''0''" by (simp add: str_nat.simps)
  have i: "(config_metadata a ''creator'' = None \<longrightarrow>
      LibcloudRunner_init a = Inl (UsageError ''Must specify creator metadata.'')) \<and>
   (config_metadata a ''creator'' = Some c \<and> \<not> isalnum c \<longrightarrow>
      LibcloudRunner_init a = Inl (UsageError ''Creator must be alphanumeric.'')) \<and>
   (config_metadata a ''creator'' = Some c \<and> isalnum c \<longrightarrow>
      (\<exists>r. LibcloudRunner_init a = Inr r \<and> creator r = c \<and> nodes r = []))"
    by (simp add: LibcloudRunner_init_def Let_def)
  show ?thesis
    using i start_nodes_names [of w r h node_count res r' es]
    by (simp add: node_name_def z)
qed


theorem creator_validated_at_init_witness:
  "LibcloudRunner_init (sample_attributes\<lparr>config := Map.empty\<rparr>) =
     Inl (UsageError ''Must specify creator metadata.'') \<and>
   \<not> isalnum ''al ice'' \<and>
   LibcloudRunner_init
     (sample_attributes\<lparr>config := [''metadata'' \<mapsto> [''creator'' \<mapsto> ''al ice'']]\<rparr>) =
     Inl (UsageError ''Creator must be alphanumeric.'') \<and>
   isalnum ''alice'' \<and>
   LibcloudRunner_init sample_attributes = Inr sample_cloud \<and>
   created_names (snd (snd (LibcloudRunner_start_nodes calm_world
      (sample_cloud\<lparr>creator := ''al ice''\<rparr>) [] 1))) = [''acceptance-test-al ice-0'']"
proof -
  have m0: "config_metadata (sample_attributes\<lparr>config := Map.empty\<rparr>) ''creator'' = None"
    by (simp add: config_metadata_def)
  have m1: "config_metadata
      (sample_attributes\<lparr>config := [''metadata'' \<mapsto> [''creator'' \<mapsto> ''al ice'']]\<rparr>)
      ''creator'' = Some ''al ice''"
    by (simp add: config_metadata_def)
  have m2: "config_metadata sample_attributes ''creator'' = Some ''alice''"
    by (simp add: config_metadata_def sample_attributes_def)
  have n1: "\<not> isalnum ''al ice''"
    by (simp add: isalnum_def alnum_char_def)
  have n2: "isalnum ''alice''"
    by (simp add: isalnum_def alnum_char_def)
  have i2: "LibcloudRunner_init sample_attributes = Inr sample_cloud"
    using n2
    by (simp add: LibcloudRunner_init_def Let_def config_metadata_def sample_attributes_def
        sample_cloud_def)
  obtain res r' es where
    ev: "LibcloudRunner_start_nodes calm_world (sample_cloud\<lparr>creator := ''al ice''\<rparr>) [] 1 =
           (res, r', es)"
    by (cases "LibcloudRunner_start_nodes calm_world (sample_cloud\<lparr>creator := ''al ice''\<rparr>) [] 1")
      auto
  have u: "[0 ..< nat 1] = [0]" by simp
  have cn: "created_names es = [''acceptance-test-al ice-0'']"
    using ev unfolding LibcloudRunner_start_nodes_def u
    by (auto simp: Let_def calm_world_simps remove_known_host_def run_def node_name_def
        str_nat.simps created_names_def split: prod.splits option.splits)
  show ?thesis
    using creator_validated_at_init
        [of "sample_attributes\<lparr>config := Map.empty\<rparr>" "''x''"]
      creator_validated_at_init
        [of "sample_attributes\<lparr>config := [''metadata'' \<mapsto> [''creator'' \<mapsto> ''al ice'']]\<rparr>"
          "''al ice''"]
      creator_validated_at_init
        [of sample_attributes "''alice''" calm_world "sample_cloud\<lparr>creator := ''al ice''\<rparr>"
          "[]" 1 res r' es]
      m0 m1 m2 n1 n2 i2 ev cn
    by simp
qed

subsection \<open>The cluster tests\<close>

text \<open>
  Starting the nodes spawns no \<open>trial\<close>; the only \<open>trial\<close> of the cluster workflow is the
  one \<open>run_cluster_tests\<close> spawns, with the environment it builds.
\<close>

lemma vagrant_prepare_no_trial:
  "vagrant_prepare w h as = (d, es) \<Longrightarrow> Run (''trial'' # args) p env d' \<notin> set es"
proof (induction as arbitrary: h d es)
  case Nil
  then show ?case by simp
next
  case (Cons a as)
  then show ?case
    by (auto split: prod.splits option.splits
        dest!: remove_known_host_events perform_events)
qed

lemma VagrantRunner_start_nodes_no_trial:
  "VagrantRunner_start_nodes w r h n = (res, es) \<Longrightarrow>
     Run (''trial'' # args) p env d' \<notin> set es"
  by (auto simp: VagrantRunner_start_nodes_def Let_def
      split: if_splits prod.splits option.splits
      dest!: run_events dest: vagrant_prepare_no_trial)

lemma start_nodes_loop_no_trial:
  "start_nodes_loop w r h idxs = (d, r', es) \<Longrightarrow>
     Run (''trial'' # args) p env d' \<notin> set es"
proof (induction idxs arbitrary: r h d r' es)
  case Nil
  then show ?case by simp
next
  case (Cons i idxs)
  then show ?case
    by (auto simp: Let_def split: sum.splits prod.splits option.splits
        dest!: remove_known_host_events)
qed

lemma start_nodes_no_trial:
  "start_nodes w r h n = (res, r', es) \<Longrightarrow> Run (''trial'' # args) p env d' \<notin> set es"
  by (auto simp: start_nodes_def LibcloudRunner_start_nodes_def
      split: runner.splits prod.splits option.splits
      dest: VagrantRunner_start_nodes_no_trial start_nodes_loop_no_trial)

lemma first_node_hd: "first_node ns = Inr n0 \<Longrightarrow> ns \<noteq> [] \<and> n0 = hd ns"
  by (auto simp: first_node_def split: list.splits)

lemma run_cluster_tests_events:
  "run_cluster_tests w h ns c as vb ta = (res, es) \<Longrightarrow>
     \<exists>d. es = [Run (''trial'' # (if ta = [] then [''flocker.acceptance''] else ta)) None
        (Some (extend_environ w
           [(''FLOCKER_ACCEPTANCE_NODES'', join '':'' (map address ns)),
            (''FLOCKER_ACCEPTANCE_CONTROL_NODE'', address c),
            (''FLOCKER_ACCEPTANCE_AGENT_NODES'', join '':'' (map address as)),
            (''FLOCKER_ACCEPTANCE_VOLUME_BACKEND'', backend_name vb)])) d]"
  by (auto simp: run_cluster_tests_def Let_def split: prod.splits dest!: run_events)

lemma cluster_trial_run:
  assumes "do_cluster_acceptance_tests w r trial_args h = (res, r', es)"
    and "Run (''trial'' # args) p env d \<in> set es"
  shows "\<exists>ns. fst (start_nodes w r h 2) = Inr ns \<and> ns \<noteq> [] \<and> p = None \<and>
    args = (if trial_args = [] then [''flocker.acceptance''] else trial_args) \<and>
    env = Some (extend_environ w
           [(''FLOCKER_ACCEPTANCE_NODES'', join '':'' (map address ns)),
            (''FLOCKER_ACCEPTANCE_CONTROL_NODE'', address (hd ns)),
            (''FLOCKER_ACCEPTANCE_AGENT_NODES'', join '':'' (map address ns)),
            (''FLOCKER_ACCEPTANCE_VOLUME_BACKEND'', ''zfs'')])"
proof -
  obtain r0 r1 es1 where s: "start_nodes w r h 2 = (r0, r1, es1)"
    by (cases "start_nodes w r h 2")
  have n1: "Run (''trial'' # args) p env d \<notin> set es1"
    using start_nodes_no_trial [OF s] .
  show ?thesis
  proof (cases r0)
    case (Inl e)
    with assms s n1 show ?thesis
      by (simp add: do_cluster_acceptance_tests_def)
  next
    case (Inr ns)
    obtain d2 es2 where p2: "perform w (h @ es1) (provision r1 ns) = (d2, es2)"
      by (cases "perform w (h @ es1) (provision r1 ns)")
    have es2: "es2 = [Perform (provision r1 ns) d2]"
      using perform_events [OF p2] .
    show ?thesis
    proof (cases d2)
      case (Some e)
      with assms s n1 Inr p2 es2 show ?thesis
        by (auto simp: do_cluster_acceptance_tests_def)
    next
      case None
      show ?thesis
      proof (cases "first_node ns")
        case (Inl e)
        with assms s n1 Inr p2 es2 None show ?thesis
          by (auto simp: do_cluster_acceptance_tests_def)
      next
        case n0: (Inr n0)
        note f = first_node_hd [OF n0]
        obtain d3 es3 where
          p3: "perform w (h @ es1 @ es2) (configure_cluster n0 ns) = (d3, es3)"
          by (cases "perform w (h @ es1 @ es2) (configure_cluster n0 ns)")
        have es3: "es3 = [Perform (configure_cluster n0 ns) d3]"
          using perform_events [OF p3] .
        show ?thesis
        proof (cases d3)
          case (Some e)
          with assms s n1 Inr p2 es2 None n0 p3 es3 show ?thesis
            by (auto simp: do_cluster_acceptance_tests_def)
        next
          case d3: None
          obtain r4 es4 where
            t: "run_cluster_tests w (h @ es1 @ es2 @ es3) ns n0 ns VolumeBackend_zfs
                  trial_args = (r4, es4)"
            by (cases "run_cluster_tests w (h @ es1 @ es2 @ es3) ns n0 ns VolumeBackend_zfs
                  trial_args")
          from run_cluster_tests_events [OF t] obtain d4 where
            es4: "es4 = [Run (''trial'' #
                (if trial_args = [] then [''flocker.acceptance''] else trial_args)) None
              (Some (extend_environ w
                 [(''FLOCKER_ACCEPTANCE_NODES'', join '':'' (map address ns)),
                  (''FLOCKER_ACCEPTANCE_CONTROL_NODE'', address n0),
                  (''FLOCKER_ACCEPTANCE_AGENT_NODES'', join '':'' (map address ns)),
                  (''FLOCKER_ACCEPTANCE_VOLUME_BACKEND'', backend_name VolumeBackend_zfs)])) d4]"
            by auto
          have es: "es = es1 @ es2 @ es3 @ es4"
            using assms(1) s Inr p2 None n0 p3 d3 t
            by (simp add: do_cluster_acceptance_tests_def)
          have "Run (''trial'' # args) p env d \<in> set es4"
            using assms(2) n1 es es2 es3 by auto
          then show ?thesis
            using es4 f s Inr by (auto simp: VolumeBackend_zfs_def)
        qed
      qed
    qed
  qed
qed


lemma cluster_environment_values:
  "extend_environ w
     [(''FLOCKER_ACCEPTANCE_NODES'', a),
      (''FLOCKER_ACCEPTANCE_CONTROL_NODE'', b),
      (''FLOCKER_ACCEPTANCE_AGENT_NODES'', c),
      (''FLOCKER_ACCEPTANCE_VOLUME_BACKEND'', z)] k =
   (if k = ''FLOCKER_ACCEPTANCE_VOLUME_BACKEND'' then Some z
    else if k = ''FLOCKER_ACCEPTANCE_AGENT_NODES'' then Some c
    else if k = ''FLOCKER_ACCEPTANCE_CONTROL_NODE'' then Some b
    else if k = ''FLOCKER_ACCEPTANCE_NODES'' then Some a
    else os_environ w k)"
  by (simp add: extend_environ_def)

text \<open>
  C8. The environment of the cluster tests. The \<open>trial\<close> process of the cluster workflow
  is spawned for the pool \<open>ns\<close> that \<open>start_nodes\<close> returned, with an environment that
  holds the addresses of all nodes joined by \<open>:\<close>, the address of the first node of the
  pool as the control node, the addresses of the agent nodes (the same nodes) joined by
  \<open>:\<close>, and the name of the volume backend; under every other name it holds what the
  inherited environment holds.
\<close>

theorem cluster_tests_environment:
  assumes "do_cluster_acceptance_tests w r trial_args h = (res, r', es)"
    and "Run (''trial'' # args) p env d \<in> set es"
  shows "\<exists>ns e. fst (start_nodes w r h 2) = Inr ns \<and> ns \<noteq> [] \<and> p = None \<and> env = Some e \<and>
    e ''FLOCKER_ACCEPTANCE_NODES'' = Some (join '':'' (map address ns)) \<and>
    e ''FLOCKER_ACCEPTANCE_CONTROL_NODE'' = Some (address (hd ns)) \<and>
    e ''FLOCKER_ACCEPTANCE_AGENT_NODES'' = Some (join '':'' (map address ns)) \<and>
    e ''FLOCKER_ACCEPTANCE_VOLUME_BACKEND'' = Some ''zfs'' \<and>
    (\<forall>k. k \<notin> {''FLOCKER_ACCEPTANCE_NODES'', ''FLOCKER_ACCEPTANCE_CONTROL_NODE'',
               ''FLOCKER_ACCEPTANCE_AGENT_NODES'', ''FLOCKER_ACCEPTANCE_VOLUME_BACKEND''} \<longrightarrow>
         e k = os_environ w k)"
proof -
  from cluster_trial_run [OF assms] obtain ns where
    ns: "fst (start_nodes w r h 2) = Inr ns" "ns \<noteq> []" "p = None"
      "env = Some (extend_environ w
           [(''FLOCKER_ACCEPTANCE_NODES'', join '':'' (map address ns)),
            (''FLOCKER_ACCEPTANCE_CONTROL_NODE'', address (hd ns)),
            (''FLOCKER_ACCEPTANCE_AGENT_NODES'', join '':'' (map address ns)),
            (''FLOCKER_ACCEPTANCE_VOLUME_BACKEND'', ''zfs'')])"
    by auto
  show ?thesis
    using ns by (intro exI [of _ ns]) (simp add: cluster_environment_values)
qed

lemma stop_nodes_loop_no_run: "Run c p env d \<notin> set (stop_nodes_loop w h ns)"
  by (induction ns arbitrary: h) (auto simp: Let_def split: option.splits)

lemma stop_nodes_no_trial:
  "stop_nodes w r h = (res, es) \<Longrightarrow> Run (''trial'' # args) p env d \<notin> set es"
  by (auto simp: stop_nodes_def VagrantRunner_stop_nodes_def LibcloudRunner_stop_nodes_def
      stop_nodes_loop_no_run split: runner.splits prod.splits dest!: run_events)

text \<open>
  C10. The volume backend of the cluster tests is always zfs. Whatever the runner, the
  configuration, the selectors, the \<open>keep\<close> flag and the inherited environment are, every
  \<open>trial\<close> process that \<open>main\<close> spawns for the cluster tests has
  \<open>FLOCKER_ACCEPTANCE_VOLUME_BACKEND\<close> set to \<open>zfs\<close>.
\<close>

theorem cluster_backend_is_zfs:
  assumes "opt_type opts = CLUSTER"
    and "Run (''trial'' # args) p env d \<in> set (snd (main w opts))"
  shows "\<exists>e. env = Some e \<and> e ''FLOCKER_ACCEPTANCE_VOLUME_BACKEND'' = Some ''zfs''"
proof -
  obtain outcome r1 es1 where
    t: "do_cluster_acceptance_tests w (opt_runner opts) (opt_trial_args opts) [] =
          (outcome, r1, es1)"
    by (cases "do_cluster_acceptance_tests w (opt_runner opts) (opt_trial_args opts) []")
  obtain res es2 where s: "stop_nodes w r1 es1 = (res, es2)"
    by (cases "stop_nodes w r1 es1")
  have "set (snd (main w opts)) \<subseteq> set es1 \<union> set es2 \<union> {Print Keep_specified}"
    using t s assms(1)
    by (auto simp: main_def test_type_runner_def Let_def split: sum.splits if_splits)
  with assms(2) stop_nodes_no_trial [OF s] have "Run (''trial'' # args) p env d \<in> set es1"
    by auto
  from cluster_trial_run [OF t this] show ?thesis
    by (auto simp: cluster_environment_values)
qed


lemma calm_vagrant_start:
  "VagrantRunner_start_nodes calm_world sample_vagrant [] 2 =
     (Inr [VagrantNode ''172.16.255.240'' ''ubuntu-14.04'',
           VagrantNode ''172.16.255.241'' ''ubuntu-14.04''],
      [Run [''vagrant'', ''destroy'', ''-f'']
         (Some ''/flocker/admin/vagrant-acceptance-targets/ubuntu-14.04'') None None,
       Run [''vagrant'', ''up'']
         (Some ''/flocker/admin/vagrant-acceptance-targets/ubuntu-14.04'')
         (Some [''HOME'' \<mapsto> ''/root'']) None,
       Run [''ssh-keygen'', ''-R'', ''172.16.255.240''] None None None,
       Perform (run_remotely ''root'' ''172.16.255.240'' task_pull_docker_images) None,
       Run [''ssh-keygen'', ''-R'', ''172.16.255.241''] None None None,
       Perform (run_remotely ''root'' ''172.16.255.241'' task_pull_docker_images) None])"
  by (simp add: VagrantRunner_start_nodes_def NODE_ADDRESSES_def run_def perform_def
      remove_known_host_def Let_def calm_world_simps truthy_def sample_vagrant_def)

theorem cluster_tests_environment_witness:
  "\<exists>e. Run [''trial'', ''flocker.acceptance''] None (Some e) None \<in>
         set (snd (snd (do_cluster_acceptance_tests calm_world (VagrantRunner sample_vagrant)
           [] []))) \<and>
       e ''FLOCKER_ACCEPTANCE_NODES'' = Some ''172.16.255.240:172.16.255.241'' \<and>
       e ''FLOCKER_ACCEPTANCE_CONTROL_NODE'' = Some ''172.16.255.240'' \<and>
       e ''FLOCKER_ACCEPTANCE_AGENT_NODES'' = Some ''172.16.255.240:172.16.255.241'' \<and>
       e ''FLOCKER_ACCEPTANCE_VOLUME_BACKEND'' = Some ''zfs'' \<and>
       e ''HOME'' = Some ''/root''"
proof -
  let ?env = "extend_environ calm_world
     [(''FLOCKER_ACCEPTANCE_NODES'', ''172.16.255.240:172.16.255.241''),
      (''FLOCKER_ACCEPTANCE_CONTROL_NODE'', ''172.16.255.240''),
      (''FLOCKER_ACCEPTANCE_AGENT_NODES'', ''172.16.255.240:172.16.255.241''),
      (''FLOCKER_ACCEPTANCE_VOLUME_BACKEND'', ''zfs'')]"
  obtain res r' es where
    ev: "do_cluster_acceptance_tests calm_world (VagrantRunner sample_vagrant) [] [] =
           (res, r', es)"
    by (cases "do_cluster_acceptance_tests calm_world (VagrantRunner sample_vagrant) [] []")
      auto
  have st: "fst (start_nodes calm_world (VagrantRunner sample_vagrant) [] 2) =
      Inr [VagrantNode ''172.16.255.240'' ''ubuntu-14.04'',
           VagrantNode ''172.16.255.241'' ''ubuntu-14.04'']"
    by (simp add: start_nodes_def calm_vagrant_start)
  have m: "Run (''trial'' # [''flocker.acceptance'']) None (Some ?env) None \<in> set es"
    using ev
    by (auto simp: do_cluster_acceptance_tests_def start_nodes_def calm_vagrant_start
        perform_def first_node_def run_cluster_tests_def run_def Let_def calm_world_simps
        VolumeBackend_zfs_def)
  from cluster_tests_environment [OF ev m] st
  have "?env ''FLOCKER_ACCEPTANCE_NODES'' = Some ''172.16.255.240:172.16.255.241'' \<and>
       ?env ''FLOCKER_ACCEPTANCE_CONTROL_NODE'' = Some ''172.16.255.240'' \<and>
       ?env ''FLOCKER_ACCEPTANCE_AGENT_NODES'' = Some ''172.16.255.240:172.16.255.241'' \<and>
       ?env ''FLOCKER_ACCEPTANCE_VOLUME_BACKEND'' = Some ''zfs'' \<and>
       ?env ''HOME'' = Some ''/root''"
    by (auto simp: calm_world_simps)
  with m ev show ?thesis
    by (intro exI [of _ ?env]) simp
qed

lemma calm_cloud_start:
  "LibcloudRunner_start_nodes calm_world sample_cloud [] 2 =
     (Inr [sample_node, second_node],
      sample_cloud\<lparr>nodes := [sample_node, second_node]\<rparr>,
      [Print (Creating_node 0 ''acceptance-test-alice-0''),
       Create_node ''acceptance-test-alice-0'' ''ubuntu-14.04'' (node_metadata sample_cloud)
         (Inr sample_node),
       Run [''ssh-keygen'', ''-R'', ''10.0.0.0''] None None None,
       Print (Creating_node 1 ''acceptance-test-alice-1''),
       Create_node ''acceptance-test-alice-1'' ''ubuntu-14.04'' (node_metadata sample_cloud)
         (Inr second_node),
       Run [''ssh-keygen'', ''-R'', ''10.0.0.1''] None None None])"
  unfolding LibcloudRunner_start_nodes_def two_indices
  by (simp add: Let_def node_name_nodes node_metadata_nodes sample_names sample_cloud_simps
      calm_world_simps remove_known_host_def run_def sample_node_def second_node_def)

theorem cluster_backend_is_zfs_witness:
  "\<exists>e. Run [''trial'', ''suiteA''] None (Some e) None \<in>
         set (snd (main calm_world
           \<lparr>opt_runner = LibcloudRunner sample_cloud, opt_type = CLUSTER,
            opt_trial_args = [''suiteA''], opt_keep = False\<rparr>)) \<and>
       e ''FLOCKER_ACCEPTANCE_VOLUME_BACKEND'' = Some ''zfs''"
proof -
  let ?opts = "\<lparr>opt_runner = LibcloudRunner sample_cloud, opt_type = CLUSTER,
            opt_trial_args = [''suiteA''], opt_keep = False\<rparr>"
  let ?env = "extend_environ calm_world
     [(''FLOCKER_ACCEPTANCE_NODES'', join '':'' (map address [sample_node, second_node])),
      (''FLOCKER_ACCEPTANCE_CONTROL_NODE'', address sample_node),
      (''FLOCKER_ACCEPTANCE_AGENT_NODES'', join '':'' (map address [sample_node, second_node])),
      (''FLOCKER_ACCEPTANCE_VOLUME_BACKEND'', ''zfs'')]"
  have t: "opt_type ?opts = CLUSTER" by simp
  have m: "Run (''trial'' # [''suiteA'']) None (Some ?env) None \<in> set (snd (main calm_world ?opts))"
    by (auto simp: main_def test_type_runner_def do_cluster_acceptance_tests_def
        start_nodes_def calm_cloud_start perform_def first_node_def run_cluster_tests_def
        run_def Let_def calm_world_simps VolumeBackend_zfs_def addCallbacks_def
        split: prod.splits sum.splits)
  from cluster_backend_is_zfs [OF t m] m show ?thesis
    by (intro exI [of _ ?env]) simp
qed

end
